theory Spec2Isabelle
  imports Complex_Main "HOL-Library.Log_Nat"
begin

section \<open>Area characterization client: data model\<close>

text \<open>
  A shallow embedding of
  \<^verbatim>\<open>xls/contrib/integrator/area_model/area_characterization_client_main.py\<close>.
  Python integers are \<^typ>\<open>int\<close>, strings are \<^typ>\<open>string\<close>, an exception is the
  \<open>Inl\<close> side of a sum, and the two things the program does to the outside world
  (printing to standard output and sending compile requests to the synthesis server)
  are kept in an explicit \<open>world\<close> that every effectful function takes and returns.
\<close>

subsection \<open>Python helpers: \<open>str\<close>, \<open>str.split\<close>, \<open>range\<close>\<close>

definition digit_char :: "nat \<Rightarrow> char" where
  "digit_char n = ''0123456789'' ! n"

fun str_nat :: "nat \<Rightarrow> string" where
  "str_nat n = (if n < 10 then [digit_char n] else str_nat (n div 10) @ [digit_char (n mod 10)])"

declare str_nat.simps [simp del]

definition str :: "int \<Rightarrow> string" where
  \<comment> \<open>Python's \<open>str\<close> on an integer: decimal digits, with a minus sign when negative.\<close>
  "str i = (if i < 0 then ''-'' @ str_nat (nat (- i)) else str_nat (nat i))"

definition is_space :: "char \<Rightarrow> bool" where
  \<comment> \<open>the ASCII whitespace that \<open>str.split()\<close> with no argument separates on\<close>
  "is_space c = (c \<in> set [CHR '' '', CHR 0x09, CHR 0x0A, CHR 0x0B, CHR 0x0C, CHR 0x0D])"

fun split_from :: "string \<Rightarrow> string \<Rightarrow> string list" where
  \<comment> \<open>\<open>split_from w s\<close>: the words of \<open>s\<close>, where \<open>w\<close> is the word read so far\<close>
  "split_from w [] = (if w = [] then [] else [w])"
| "split_from w (c # cs) =
     (if is_space c then (if w = [] then [] else [w]) @ split_from [] cs
      else split_from (w @ [c]) cs)"

definition str_split :: "string \<Rightarrow> string list" where
  \<comment> \<open>Python's \<open>s.split()\<close>: the maximal runs of non-whitespace characters, in order\<close>
  "str_split s = split_from [] s"

function py_range :: "int \<Rightarrow> int \<Rightarrow> int \<Rightarrow> int list" where
  \<comment> \<open>Python's \<open>range(start, stop, step)\<close> as the list a \<open>for\<close> loop walks through. Every
      call in the source has a positive step; a step that is not positive (where Python
      counts down, or raises for 0) gives the empty list here and is never used.\<close>
  "py_range start stop step =
     (if 0 < step \<and> start < stop then start # py_range (start + step) stop step else [])"
  by pat_completeness auto
termination
  by (relation "measure (\<lambda>(start, stop, step). nat (stop - start))") auto

declare py_range.simps [simp del]

subsection \<open>Constants of the module\<close>

definition SLE_ALIASES :: "string list" where
  "SLE_ALIASES = str_split ''kSLt kSGe kSGt kULe kULt kUGe kNe kEq kNeg kDecode''"

definition FREE_OPS :: "string list" where
  \<comment> \<open>The source writes two adjacent string literals, which Python joins with nothing
      between them, and splits the joined string.\<close>
  "FREE_OPS = str_split (''kArray kArrayConcat kArrayIndex kBitSlice kConcat kIdentity''
                         @ ''kLiteral kParam kReverse kTuple kTupleIndex kZeroExt'')"

definition flat_bit_count_sweep_ceiling :: int where
  "flat_bit_count_sweep_ceiling = 65"

definition operand_count_sweep_ceiling :: int where
  "operand_count_sweep_ceiling = 16"

definition base_loop_stride :: int where
  "base_loop_stride = 2"

subsection \<open>Helper of \<open>xls.ir.python.bits\<close>\<close>

text \<open>
  Modelled from the spec: \<open>bits.min_bit_count_unsigned\<close> is imported from
  \<open>xls/ir/python/bits\<close>, which is not among the sources. It is the least number of bits
  that hold an unsigned value: the spec's worked values are
  \<open>min_bit_count_unsigned(3) = 2\<close>, \<open>min_bit_count_unsigned(4) = 3\<close> (selector width
  for 4 and for 5 cases, result width of a 5-bit encode) and
  \<open>min_bit_count_unsigned(7) = 3\<close>, and its selector formula gives
  \<open>min_bit_count_unsigned(n - 1) = ceil(log2(n))\<close>. The original takes an unsigned
  64-bit value; a value that is not positive gives 0 here.
\<close>

function min_bit_count_unsigned :: "int \<Rightarrow> int" where
  "min_bit_count_unsigned v = (if v \<le> 0 then 0 else 1 + min_bit_count_unsigned (v div 2))"
  by pat_completeness auto
termination
  by (relation "measure nat") auto

declare min_bit_count_unsigned.simps [simp del]

subsection \<open>Messages: compile request and response, the delay model\<close>

record compile_request =
  module_text :: string
  top_module_name :: string

record compile_response =
  cell_histogram :: "string \<rightharpoonup> int"  \<comment> \<open>\<open>response.instance_count.cell_histogram\<close>\<close>

datatype delay_factor = RESULT_BIT_COUNT | OPERAND_BIT_COUNT int | OPERAND_COUNT

datatype estimator = Fixed int | Lookup "delay_factor list"

record op_model =
  op_model_op :: string
  op_model_estimator :: estimator

record operation =
  operation_op :: string
  operation_bit_count :: int
  operation_operands :: "int list"  \<comment> \<open>the \<open>bit_count\<close> of each operand, in order\<close>

record data_point =
  dp_operation :: operation
  delay :: int

record delay_model =
  op_models :: "op_model list"
  data_points :: "data_point list"

subsection \<open>Errors, the outside world, the collaborators\<close>

datatype error = GeneratorError string | RpcError string

datatype printed = Line string | Text_Format delay_model

record world =
  stdout :: "printed list"          \<comment> \<open>what has been printed, oldest first\<close>
  sent :: "compile_request list"    \<comment> \<open>the requests sent to the server, oldest first\<close>

text \<open>
  The collaborators the module calls but does not define: the three functions of
  \<open>op_module_generator\<close>, and the \<open>Compile\<close> call of the synthesis stub. Each may
  raise. The server may answer the same request differently at different times, so
  \<open>Compile\<close> also sees the requests it has been sent before.
\<close>

record 'm env =
  generate_ir_package ::
    "string \<Rightarrow> string \<Rightarrow> string list \<Rightarrow> (string \<times> string) list \<Rightarrow> (string \<times> int) list
       \<Rightarrow> (string \<times> int \<times> int) list \<Rightarrow> int option \<Rightarrow> error + string"
  generate_verilog_module :: "string \<Rightarrow> string \<Rightarrow> error + 'm"
  generate_parallel_module :: "'m list \<Rightarrow> string \<Rightarrow> error + string"
  Compile :: "compile_request list \<Rightarrow> compile_request \<Rightarrow> error + compile_response"

definition print_line :: "string \<Rightarrow> world \<Rightarrow> world" where
  "print_line s w = w\<lparr>stdout := stdout w @ [Line s]\<rparr>"

definition print_model :: "delay_model \<Rightarrow> world \<Rightarrow> world" where
  "print_model m w = w\<lparr>stdout := stdout w @ [Text_Format m]\<rparr>"

section \<open>The datapoint builder\<close>

definition synth :: "'m env \<Rightarrow> string \<Rightarrow> string \<Rightarrow> world \<Rightarrow> (error + compile_response) \<times> world" where
  "synth e verilog_text top_name w =
     (let request = \<lparr>module_text = verilog_text, top_module_name = top_name\<rparr>
      in (Compile e (sent w) request, w\<lparr>sent := sent w @ [request]\<rparr>))"

definition record_area :: "compile_response \<Rightarrow> data_point \<Rightarrow> data_point" where
  "record_area response result =
     (if cell_histogram response ''SB_LUT4'' \<noteq> None
      then result\<lparr>delay := the (cell_histogram response ''SB_LUT4'')\<rparr>
      else result\<lparr>delay := 0\<rparr>)"

text \<open>The arguments of one call of \<open>_build_data_point\<close>, apart from the stub.\<close>

record descriptor =
  desc_op :: string
  desc_kop :: string
  num_node_bits :: int
  num_operand_bits :: "int list"
  attributes :: "(string \<times> string) list"
  operand_attributes :: "(string \<times> int) list"
  operand_span_attributes :: "(string \<times> int \<times> int) list"
  literal_operand :: "int option"

definition call_args :: "string \<Rightarrow> string \<Rightarrow> int \<Rightarrow> int list \<Rightarrow> descriptor" where
  \<comment> \<open>a call that passes the four positional arguments and leaves the rest at their defaults\<close>
  "call_args op kop node_bits operand_bits =
     \<lparr>desc_op = op, desc_kop = kop, num_node_bits = node_bits, num_operand_bits = operand_bits,
      attributes = [], operand_attributes = [], operand_span_attributes = [],
      literal_operand = None\<rparr>"

definition empty_data_point :: data_point where
  "empty_data_point =
     \<lparr>dp_operation = \<lparr>operation_op = [], operation_bit_count = 0, operation_operands = []\<rparr>,
      delay = 0\<rparr>"

definition build_data_point :: "'m env \<Rightarrow> descriptor \<Rightarrow> world \<Rightarrow> (error + data_point) \<times> world" where
  "build_data_point e d w =
     (let op_type = ''bits['' @ str (num_node_bits d) @ '']'';
          operand_types = map (\<lambda>operand_bit_count. ''bits['' @ str operand_bit_count @ '']'')
                              (num_operand_bits d)
      in case generate_ir_package e (desc_op d) op_type operand_types (attributes d)
                (operand_attributes d) (operand_span_attributes d) (literal_operand d) of
           Inl err \<Rightarrow> (Inl err, w)
         | Inr ir_text \<Rightarrow>
            (let module_name = desc_op d @ ''_'' @ str (num_node_bits d)
             in case generate_verilog_module e module_name ir_text of
                  Inl err \<Rightarrow> (Inl err, w)
                | Inr mod_generator_result \<Rightarrow>
                   (let top_name = module_name @ ''_wrapper''
                    in case generate_parallel_module e [mod_generator_result] top_name of
                         Inl err \<Rightarrow> (Inl err, w)
                       | Inr verilog_text \<Rightarrow>
                          (case synth e verilog_text top_name w of
                             (Inl err, w') \<Rightarrow> (Inl err, w')
                           | (Inr response, w') \<Rightarrow>
                              (let result = record_area response empty_data_point
                               in (Inr (result\<lparr>dp_operation :=
                                           \<lparr>operation_op = desc_kop d,
                                            operation_bit_count = num_node_bits d,
                                            operation_operands = num_operand_bits d\<rparr>\<rparr>),
                                   w'))))))"

section \<open>The sweep strategies\<close>

text \<open>
  Every strategy of the source has the same shape: it adds the operation's entry, with its
  lookup factors, to the model; then its loop nest prints one progress line per point, calls
  \<open>_build_data_point\<close> and adds the datapoint to the model. The model keeps the two parts
  apart: \<open>\<dots>_points\<close> is the loop nest, as the list of (progress line, call arguments)
  pairs in the order the loop nest reaches them, and \<open>run_points\<close> walks through such a list,
  printing, calling and collecting, and stops at the first exception.
\<close>

type_synonym point = "string \<times> descriptor"

fun run_points :: "'m env \<Rightarrow> point list \<Rightarrow> world \<Rightarrow> (error + data_point list) \<times> world" where
  "run_points e [] w = (Inr [], w)"
| "run_points e ((msg, d) # ps) w =
     (case build_data_point e d (print_line msg w) of
        (Inl err, w') \<Rightarrow> (Inl err, w')
      | (Inr dp, w') \<Rightarrow>
         (case run_points e ps w' of
            (Inl err, w'') \<Rightarrow> (Inl err, w'')
          | (Inr dps, w'') \<Rightarrow> (Inr (dp # dps), w'')))"

definition add_op_model :: "string \<Rightarrow> delay_factor list \<Rightarrow> delay_model \<Rightarrow> delay_model" where
  \<comment> \<open>\<open>model.op_models.add(op=kop)\<close> followed by the \<open>estimator.lookup.factors.add\<close> calls\<close>
  "add_op_model kop factors model =
     model\<lparr>op_models := op_models model
              @ [\<lparr>op_model_op = kop, op_model_estimator = Lookup factors\<rparr>]\<rparr>"

definition add_data_points ::
  "delay_model \<Rightarrow> (error + data_point list) \<times> world \<Rightarrow> (error + delay_model) \<times> world" where
  \<comment> \<open>the datapoints of a finished loop, at the end of \<open>model.data_points\<close>\<close>
  "add_data_points model r =
     (case r of
        (Inl err, w) \<Rightarrow> (Inl err, w)
      | (Inr dps, w) \<Rightarrow> (Inr (model\<lparr>data_points := data_points model @ dps\<rparr>), w))"

definition nary_op_points :: "string \<Rightarrow> string \<Rightarrow> int \<Rightarrow> point list" where
  "nary_op_points op kop num_inputs =
     [(''# nary_op: '' @ op @ '', '' @ str bit_count @ '' bits, '' @ str num_inputs @ '' inputs'',
       call_args op kop bit_count (replicate (nat num_inputs) bit_count)).
      bit_count \<leftarrow> py_range 1 flat_bit_count_sweep_ceiling base_loop_stride]"

definition run_nary_op ::
  "'m env \<Rightarrow> string \<Rightarrow> string \<Rightarrow> int \<Rightarrow> world \<Rightarrow> (error + data_point list) \<times> world" where
  "run_nary_op e op kop num_inputs w = run_points e (nary_op_points op kop num_inputs) w"

definition run_bin_op_and_add ::
  "'m env \<Rightarrow> string \<Rightarrow> string \<Rightarrow> delay_model \<Rightarrow> world \<Rightarrow> (error + delay_model) \<times> world" where
  "run_bin_op_and_add e op kop model w =
     add_data_points (add_op_model kop [RESULT_BIT_COUNT] model) (run_nary_op e op kop 2 w)"

definition run_unary_op_and_add ::
  "'m env \<Rightarrow> string \<Rightarrow> string \<Rightarrow> delay_model \<Rightarrow> world \<Rightarrow> (error + delay_model) \<times> world" where
  "run_unary_op_and_add e op kop model w =
     add_data_points (add_op_model kop [RESULT_BIT_COUNT] model) (run_nary_op e op kop 1 w)"

definition nary_op_and_add_points :: "string \<Rightarrow> string \<Rightarrow> point list" where
  "nary_op_and_add_points op kop =
     [p. input_count \<leftarrow> py_range 1 operand_count_sweep_ceiling base_loop_stride,
         p \<leftarrow> nary_op_points op kop input_count]"

definition run_nary_op_and_add ::
  "'m env \<Rightarrow> string \<Rightarrow> string \<Rightarrow> delay_model \<Rightarrow> world \<Rightarrow> (error + delay_model) \<times> world" where
  "run_nary_op_and_add e op kop model w =
     add_data_points (add_op_model kop [RESULT_BIT_COUNT, OPERAND_COUNT] model)
       (run_points e (nary_op_and_add_points op kop) w)"

definition single_bit_result_op_points :: "string \<Rightarrow> string \<Rightarrow> int \<Rightarrow> point list" where
  "single_bit_result_op_points op kop num_inputs =
     [(''# reduction_op: '' @ op @ '', '' @ str input_bits @ '' bits'',
       call_args op kop 1 (replicate (nat num_inputs) input_bits)).
      input_bits \<leftarrow> py_range 1 flat_bit_count_sweep_ceiling base_loop_stride]"

definition run_single_bit_result_op_and_add ::
  "'m env \<Rightarrow> string \<Rightarrow> string \<Rightarrow> delay_model \<Rightarrow> int \<Rightarrow> world \<Rightarrow> (error + delay_model) \<times> world" where
  "run_single_bit_result_op_and_add e op kop model num_inputs w =
     add_data_points (add_op_model kop [OPERAND_BIT_COUNT 0] model)
       (run_points e (single_bit_result_op_points op kop num_inputs) w)"

definition run_reduction_op_and_add ::
  "'m env \<Rightarrow> string \<Rightarrow> string \<Rightarrow> delay_model \<Rightarrow> world \<Rightarrow> (error + delay_model) \<times> world" where
  "run_reduction_op_and_add e op kop model w = run_single_bit_result_op_and_add e op kop model 1 w"

definition run_comparison_op_and_add ::
  "'m env \<Rightarrow> string \<Rightarrow> string \<Rightarrow> delay_model \<Rightarrow> world \<Rightarrow> (error + delay_model) \<times> world" where
  "run_comparison_op_and_add e op kop model w = run_single_bit_result_op_and_add e op kop model 2 w"

definition select_call :: "string \<Rightarrow> string \<Rightarrow> int \<Rightarrow> int \<Rightarrow> descriptor" where
  \<comment> \<open>The body of the select loop nest. \<open>math.pow(2, select_bits)\<close> is a float, exact for the
      exponents that occur, and Python compares it with the integer exactly.\<close>
  "select_call op kop num_cases bit_count =
     (let cases_span_attribute = (''cases'', 1, num_cases);
          select_bits = min_bit_count_unsigned (num_cases - 1)
      in if 2 ^ nat select_bits = num_cases
         then (call_args op kop bit_count (select_bits # replicate (nat num_cases) bit_count))
                \<lparr>operand_span_attributes := [cases_span_attribute]\<rparr>
         else (let default_attribute = (''default'', num_cases + 1)
               in (call_args op kop bit_count
                     (select_bits # replicate (nat (num_cases + 1)) bit_count))
                    \<lparr>operand_span_attributes := [cases_span_attribute],
                     operand_attributes := [default_attribute]\<rparr>))"

definition select_op_points :: "string \<Rightarrow> string \<Rightarrow> point list" where
  "select_op_points op kop =
     [(''# select_op: '' @ op @ '', '' @ str bit_count @ '' bits, '' @ str num_cases @ '' cases'',
       select_call op kop num_cases bit_count).
      num_cases \<leftarrow> py_range 2 operand_count_sweep_ceiling base_loop_stride,
      bit_count \<leftarrow> py_range 1 flat_bit_count_sweep_ceiling base_loop_stride]"

definition run_select_op_and_add ::
  "'m env \<Rightarrow> string \<Rightarrow> string \<Rightarrow> delay_model \<Rightarrow> world \<Rightarrow> (error + delay_model) \<times> world" where
  "run_select_op_and_add e op kop model w =
     add_data_points (add_op_model kop [RESULT_BIT_COUNT, OPERAND_COUNT] model)
       (run_points e (select_op_points op kop) w)"

definition one_hot_select_call :: "string \<Rightarrow> string \<Rightarrow> int \<Rightarrow> int \<Rightarrow> descriptor" where
  "one_hot_select_call op kop num_cases bit_count =
     (let cases_span_attribute = (''cases'', 1, num_cases);
          select_bits = num_cases
      in (call_args op kop bit_count (select_bits # replicate (nat num_cases) bit_count))
           \<lparr>operand_span_attributes := [cases_span_attribute]\<rparr>)"

definition one_hot_select_op_points :: "string \<Rightarrow> string \<Rightarrow> point list" where
  "one_hot_select_op_points op kop =
     [(''# one_hot_select_op: '' @ op @ '', '' @ str bit_count @ '' bits, '' @ str num_cases
         @ '' cases'',
       one_hot_select_call op kop num_cases bit_count).
      num_cases \<leftarrow> py_range 2 operand_count_sweep_ceiling base_loop_stride,
      bit_count \<leftarrow> py_range 1 flat_bit_count_sweep_ceiling base_loop_stride]"

definition run_one_hot_select_op_and_add ::
  "'m env \<Rightarrow> string \<Rightarrow> string \<Rightarrow> delay_model \<Rightarrow> world \<Rightarrow> (error + delay_model) \<times> world" where
  "run_one_hot_select_op_and_add e op kop model w =
     add_data_points (add_op_model kop [RESULT_BIT_COUNT, OPERAND_COUNT] model)
       (run_points e (one_hot_select_op_points op kop) w)"

definition encode_op_points :: "string \<Rightarrow> string \<Rightarrow> point list" where
  "encode_op_points op kop =
     [(''# encode_op: '' @ op @ '', '' @ str input_bits @ '' input bits'',
       (let node_bits = min_bit_count_unsigned (input_bits - 1)
        in call_args op kop node_bits [input_bits])).
      input_bits \<leftarrow> py_range 2 flat_bit_count_sweep_ceiling base_loop_stride]"

definition run_encode_op_and_add ::
  "'m env \<Rightarrow> string \<Rightarrow> string \<Rightarrow> delay_model \<Rightarrow> world \<Rightarrow> (error + delay_model) \<times> world" where
  "run_encode_op_and_add e op kop model w =
     add_data_points (add_op_model kop [OPERAND_BIT_COUNT 0] model)
       (run_points e (encode_op_points op kop) w)"

definition decode_op_points :: "string \<Rightarrow> string \<Rightarrow> point list" where
  "decode_op_points op kop =
     [(''# decode_op: '' @ op @ '', '' @ str node_bits @ '' bits'',
       (let input_bits = min_bit_count_unsigned (node_bits - 1)
        in (call_args op kop node_bits [input_bits])
             \<lparr>attributes := [(''width'', str node_bits)]\<rparr>)).
      node_bits \<leftarrow> py_range 2 flat_bit_count_sweep_ceiling base_loop_stride]"

definition run_decode_op_and_add ::
  "'m env \<Rightarrow> string \<Rightarrow> string \<Rightarrow> delay_model \<Rightarrow> world \<Rightarrow> (error + delay_model) \<times> world" where
  "run_decode_op_and_add e op kop model w =
     add_data_points (add_op_model kop [RESULT_BIT_COUNT] model)
       (run_points e (decode_op_points op kop) w)"

definition dynamic_bit_slice_call :: "string \<Rightarrow> string \<Rightarrow> int \<Rightarrow> int \<Rightarrow> int \<Rightarrow> descriptor" where
  "dynamic_bit_slice_call op kop start_bits input_bits node_bits =
     (call_args op kop node_bits [input_bits, start_bits])
       \<lparr>attributes := [(''width'', str node_bits)]\<rparr>"

definition dynamic_bit_slice_op_points :: "string \<Rightarrow> string \<Rightarrow> point list" where
  "dynamic_bit_slice_op_points op kop =
     [(''# encode_op: '' @ op @ '', '' @ str start_bits @ '' start bits, '' @ str input_bits
         @ '' input_bits, '' @ str node_bits @ '' width'',
       dynamic_bit_slice_call op kop start_bits input_bits node_bits).
      start_bits \<leftarrow> py_range 2 (min_bit_count_unsigned (flat_bit_count_sweep_ceiling - 1))
                      (base_loop_stride ^ 2),
      input_bits \<leftarrow> [2 ^ nat start_bits],
      node_bits \<leftarrow> py_range 1 input_bits (base_loop_stride ^ 2)]"

definition run_dynamic_bit_slice_op_and_add ::
  "'m env \<Rightarrow> string \<Rightarrow> string \<Rightarrow> delay_model \<Rightarrow> world \<Rightarrow> (error + delay_model) \<times> world" where
  "run_dynamic_bit_slice_op_and_add e op kop model w =
     add_data_points (add_op_model kop [RESULT_BIT_COUNT, OPERAND_BIT_COUNT 0] model)
       (run_points e (dynamic_bit_slice_op_points op kop) w)"

definition one_hot_op_points :: "string \<Rightarrow> string \<Rightarrow> point list" where
  "one_hot_op_points op kop =
     [(''# one_hot: '' @ op @ '', '' @ str bit_count @ '' input bits'',
       (call_args op kop (bit_count + 1) [bit_count])\<lparr>attributes := [(''lsb_prio'', ''true'')]\<rparr>).
      bit_count \<leftarrow> py_range 1 flat_bit_count_sweep_ceiling base_loop_stride]"

definition run_one_hot_op_and_add ::
  "'m env \<Rightarrow> string \<Rightarrow> string \<Rightarrow> delay_model \<Rightarrow> world \<Rightarrow> (error + delay_model) \<times> world" where
  "run_one_hot_op_and_add e op kop model w =
     add_data_points (add_op_model kop [OPERAND_BIT_COUNT 0] model)
       (run_points e (one_hot_op_points op kop) w)"

definition sign_ext_op_points :: "string \<Rightarrow> string \<Rightarrow> point list" where
  "sign_ext_op_points op kop =
     [(''# sign_ext: '' @ op @ '', '' @ str input_count @ '' input bits, '' @ str node_count
         @ '' output_bits'',
       (call_args op kop node_count [input_count])
         \<lparr>attributes := [(''new_bit_count'', str node_count)]\<rparr>).
      node_count \<leftarrow> py_range 2 flat_bit_count_sweep_ceiling (base_loop_stride * 2 ^ 2),
      input_count \<leftarrow> py_range 1 (node_count - 1) (base_loop_stride * 2 ^ 2)]"

definition run_sign_ext_op_and_add ::
  "'m env \<Rightarrow> string \<Rightarrow> string \<Rightarrow> delay_model \<Rightarrow> world \<Rightarrow> (error + delay_model) \<times> world" where
  "run_sign_ext_op_and_add e op kop model w =
     add_data_points (add_op_model kop [RESULT_BIT_COUNT, OPERAND_BIT_COUNT 0] model)
       (run_points e (sign_ext_op_points op kop) w)"

definition mul_op_points :: "string \<Rightarrow> string \<Rightarrow> point list" where
  "mul_op_points op kop =
     [(''# mul: '' @ op @ '', '' @ str mplier_count @ '' * '' @ str mcand_count @ '' -> ''
         @ str node_count,
       call_args op kop node_count [mplier_count, mcand_count]).
      mplier_count \<leftarrow> py_range 2 flat_bit_count_sweep_ceiling (base_loop_stride * 2 ^ 3),
      mcand_count \<leftarrow> py_range 2 flat_bit_count_sweep_ceiling (base_loop_stride * 2 ^ 3),
      node_count \<leftarrow> py_range 2 flat_bit_count_sweep_ceiling (base_loop_stride * 2 ^ 3)]"

definition run_mul_op_and_add ::
  "'m env \<Rightarrow> string \<Rightarrow> string \<Rightarrow> delay_model \<Rightarrow> world \<Rightarrow> (error + delay_model) \<times> world" where
  "run_mul_op_and_add e op kop model w =
     add_data_points
       (add_op_model kop [RESULT_BIT_COUNT, OPERAND_BIT_COUNT 0, OPERAND_BIT_COUNT 1] model)
       (run_points e (mul_op_points op kop) w)"

section \<open>The model accumulator\<close>

definition add_free_ops :: "delay_model \<Rightarrow> delay_model" where
  \<comment> \<open>the loop over \<open>FREE_OPS\<close>\<close>
  "add_free_ops model =
     fold (\<lambda>free_op m. m\<lparr>op_models := op_models m
                           @ [\<lparr>op_model_op = free_op, op_model_estimator = Fixed 0\<rparr>]\<rparr>)
          FREE_OPS model"

definition run_characterization :: "'m env \<Rightarrow> world \<Rightarrow> (error + unit) \<times> world" where
  \<comment> \<open>All the calls before the multiplies are inside a string literal in the source, so
      they are not run.\<close>
  "run_characterization e w =
     (let model = \<lparr>op_models = [], data_points = []\<rparr>
      in case run_mul_op_and_add e ''smul'' ''kSMul'' model w of
           (Inl err, w1) \<Rightarrow> (Inl err, w1)
         | (Inr model1, w1) \<Rightarrow>
            (case run_mul_op_and_add e ''umul'' ''kUMul'' model1 w1 of
               (Inl err, w2) \<Rightarrow> (Inl err, w2)
             | (Inr model2, w2) \<Rightarrow>
                (Inr (),
                 print_model (add_free_ops model2)
                   (print_line ''# proto-message: xls.delay_model.DelayModel''
                      (print_line ''# proto-file: xls/delay_model/delay_model.proto'' w2)))))"

section \<open>Notions used to state the properties\<close>

text \<open>
  The first half of \<open>_build_data_point\<close> on its own: the request it hands to \<open>_synth\<close>
  for a call, or the exception of the generator that raised.
\<close>

definition circuit_request :: "'m env \<Rightarrow> descriptor \<Rightarrow> error + compile_request" where
  "circuit_request e d =
     (let op_type = ''bits['' @ str (num_node_bits d) @ '']'';
          operand_types = map (\<lambda>operand_bit_count. ''bits['' @ str operand_bit_count @ '']'')
                              (num_operand_bits d);
          module_name = desc_op d @ ''_'' @ str (num_node_bits d);
          top_name = module_name @ ''_wrapper''
      in case generate_ir_package e (desc_op d) op_type operand_types (attributes d)
                (operand_attributes d) (operand_span_attributes d) (literal_operand d) of
           Inl err \<Rightarrow> Inl err
         | Inr ir_text \<Rightarrow>
            (case generate_verilog_module e module_name ir_text of
               Inl err \<Rightarrow> Inl err
             | Inr mod_generator_result \<Rightarrow>
                (case generate_parallel_module e [mod_generator_result] top_name of
                   Inl err \<Rightarrow> Inl err
                 | Inr verilog_text \<Rightarrow>
                    Inr \<lparr>module_text = verilog_text, top_module_name = top_name\<rparr>)))"

definition area_of :: "compile_response \<Rightarrow> int" where
  \<comment> \<open>the count under the cell key, and zero without the key\<close>
  "area_of response = (case cell_histogram response ''SB_LUT4'' of None \<Rightarrow> 0 | Some n \<Rightarrow> n)"

definition operation_of :: "descriptor \<Rightarrow> operation" where
  "operation_of d = \<lparr>operation_op = desc_kop d, operation_bit_count = num_node_bits d,
                     operation_operands = num_operand_bits d\<rparr>"

text \<open>The strategies by name, to speak about all of them at once.\<close>

datatype strategy =
  Bin_op | Unary_op | Nary_op | Reduction_op | Comparison_op | Select_op | One_hot_select_op
  | Encode_op | Decode_op | Dynamic_bit_slice_op | One_hot_op | Sign_ext_op | Mul_op

fun strategy_points :: "strategy \<Rightarrow> string \<Rightarrow> string \<Rightarrow> point list" where
  "strategy_points Bin_op op kop = nary_op_points op kop 2"
| "strategy_points Unary_op op kop = nary_op_points op kop 1"
| "strategy_points Nary_op op kop = nary_op_and_add_points op kop"
| "strategy_points Reduction_op op kop = single_bit_result_op_points op kop 1"
| "strategy_points Comparison_op op kop = single_bit_result_op_points op kop 2"
| "strategy_points Select_op op kop = select_op_points op kop"
| "strategy_points One_hot_select_op op kop = one_hot_select_op_points op kop"
| "strategy_points Encode_op op kop = encode_op_points op kop"
| "strategy_points Decode_op op kop = decode_op_points op kop"
| "strategy_points Dynamic_bit_slice_op op kop = dynamic_bit_slice_op_points op kop"
| "strategy_points One_hot_op op kop = one_hot_op_points op kop"
| "strategy_points Sign_ext_op op kop = sign_ext_op_points op kop"
| "strategy_points Mul_op op kop = mul_op_points op kop"

fun run_strategy ::
  "'m env \<Rightarrow> strategy \<Rightarrow> string \<Rightarrow> string \<Rightarrow> delay_model \<Rightarrow> world
     \<Rightarrow> (error + delay_model) \<times> world" where
  "run_strategy e Bin_op = run_bin_op_and_add e"
| "run_strategy e Unary_op = run_unary_op_and_add e"
| "run_strategy e Nary_op = run_nary_op_and_add e"
| "run_strategy e Reduction_op = run_reduction_op_and_add e"
| "run_strategy e Comparison_op = run_comparison_op_and_add e"
| "run_strategy e Select_op = run_select_op_and_add e"
| "run_strategy e One_hot_select_op = run_one_hot_select_op_and_add e"
| "run_strategy e Encode_op = run_encode_op_and_add e"
| "run_strategy e Decode_op = run_decode_op_and_add e"
| "run_strategy e Dynamic_bit_slice_op = run_dynamic_bit_slice_op_and_add e"
| "run_strategy e One_hot_op = run_one_hot_op_and_add e"
| "run_strategy e Sign_ext_op = run_sign_ext_op_and_add e"
| "run_strategy e Mul_op = run_mul_op_and_add e"

fun strategy_factors :: "strategy \<Rightarrow> delay_factor list" where
  \<comment> \<open>the lookup factors each strategy declares for its operation\<close>
  "strategy_factors Bin_op = [RESULT_BIT_COUNT]"
| "strategy_factors Unary_op = [RESULT_BIT_COUNT]"
| "strategy_factors Nary_op = [RESULT_BIT_COUNT, OPERAND_COUNT]"
| "strategy_factors Reduction_op = [OPERAND_BIT_COUNT 0]"
| "strategy_factors Comparison_op = [OPERAND_BIT_COUNT 0]"
| "strategy_factors Select_op = [RESULT_BIT_COUNT, OPERAND_COUNT]"
| "strategy_factors One_hot_select_op = [RESULT_BIT_COUNT, OPERAND_COUNT]"
| "strategy_factors Encode_op = [OPERAND_BIT_COUNT 0]"
| "strategy_factors Decode_op = [RESULT_BIT_COUNT]"
| "strategy_factors Dynamic_bit_slice_op = [RESULT_BIT_COUNT, OPERAND_BIT_COUNT 0]"
| "strategy_factors One_hot_op = [OPERAND_BIT_COUNT 0]"
| "strategy_factors Sign_ext_op = [RESULT_BIT_COUNT, OPERAND_BIT_COUNT 0]"
| "strategy_factors Mul_op = [RESULT_BIT_COUNT, OPERAND_BIT_COUNT 0, OPERAND_BIT_COUNT 1]"

definition valid_descriptor :: "descriptor \<Rightarrow> bool" where
  \<comment> \<open>every operand a call's attributes name is one of its operands\<close>
  "valid_descriptor d =
     (let n = int (length (num_operand_bits d))
      in list_all (\<lambda>(name, index). 0 \<le> index \<and> index < n) (operand_attributes d)
         \<and> list_all (\<lambda>(name, start, count). 0 \<le> start \<and> 0 \<le> count \<and> start + count \<le> n)
                     (operand_span_attributes d)
         \<and> (case literal_operand d of None \<Rightarrow> True | Some index \<Rightarrow> 0 \<le> index \<and> index < n))"

definition production_points :: "point list" where
  \<comment> \<open>the points of the two sweeps that \<open>run_characterization\<close> runs, in order\<close>
  "production_points = mul_op_points ''smul'' ''kSMul'' @ mul_op_points ''umul'' ''kUMul''"

definition deterministic :: "'m env \<Rightarrow> bool" where
  \<comment> \<open>a server whose answer depends on the request alone\<close>
  "deterministic e = (\<forall>h h' request. Compile e h request = Compile e h' request)"

definition ceil_log2 :: "int \<Rightarrow> int" where
  \<comment> \<open>the spec's \<open>ceil(log2(n))\<close>, over the reals\<close>
  "ceil_log2 n = \<lceil>log 2 (real_of_int n)\<rceil>"

text \<open>Collaborators for concrete runs: generators that always succeed, and three servers.\<close>

definition fake_env ::
  "(compile_request list \<Rightarrow> compile_request \<Rightarrow> error + compile_response) \<Rightarrow> string env" where
  "fake_env server =
     \<lparr>generate_ir_package = (\<lambda>op op_type operand_types attrs refs spans literal.
                               Inr (op @ '' -> '' @ op_type)),
      generate_verilog_module = (\<lambda>module_name ir_text. Inr (''module '' @ module_name)),
      generate_parallel_module = (\<lambda>modules top_name. Inr (concat modules @ '' in '' @ top_name)),
      Compile = server\<rparr>"

definition answering :: "int \<Rightarrow> compile_request list \<Rightarrow> compile_request \<Rightarrow> error + compile_response" where
  "answering n h request = Inr \<lparr>cell_histogram = [''SB_LUT4'' \<mapsto> n]\<rparr>"

definition answering_without_key ::
  "compile_request list \<Rightarrow> compile_request \<Rightarrow> error + compile_response" where
  "answering_without_key h request = Inr \<lparr>cell_histogram = [''SB_DFF'' \<mapsto> 3]\<rparr>"

definition failing_after ::
  "nat \<Rightarrow> compile_request list \<Rightarrow> compile_request \<Rightarrow> error + compile_response" where
  \<comment> \<open>answers the first \<open>k\<close> requests and rejects every later one\<close>
  "failing_after k h request =
     (if length h < k then Inr \<lparr>cell_histogram = [''SB_LUT4'' \<mapsto> 7]\<rparr>
      else Inl (RpcError ''rejected''))"

definition fresh_world :: world where
  "fresh_world = \<lparr>stdout = [], sent = []\<rparr>"

definition emitted_model :: "data_point list \<Rightarrow> delay_model" where
  \<comment> \<open>the model that \<open>run_characterization\<close> prints when its sweeps gave these datapoints\<close>
  "emitted_model dps =
     \<lparr>op_models =
        [\<lparr>op_model_op = ''kSMul'', op_model_estimator =
            Lookup [RESULT_BIT_COUNT, OPERAND_BIT_COUNT 0, OPERAND_BIT_COUNT 1]\<rparr>,
         \<lparr>op_model_op = ''kUMul'', op_model_estimator =
            Lookup [RESULT_BIT_COUNT, OPERAND_BIT_COUNT 0, OPERAND_BIT_COUNT 1]\<rparr>]
        @ map (\<lambda>free_op. \<lparr>op_model_op = free_op, op_model_estimator = Fixed 0\<rparr>) FREE_OPS,
      data_points = dps\<rparr>"

section \<open>Facts about the builder and the loop\<close>

lemma py_range_bounds: "x \<in> set (py_range start stop step) \<Longrightarrow> start \<le> x \<and> x < stop"
proof (induction start stop step rule: py_range.induct)
  case (1 start stop step)
  then show ?case
    by (subst (asm) (2) py_range.simps) (auto split: if_splits)
qed

lemma build_data_point_eq:
  "build_data_point e d w =
     (case circuit_request e d of
        Inl err \<Rightarrow> (Inl err, w)
      | Inr request \<Rightarrow>
         (case Compile e (sent w) request of
            Inl err \<Rightarrow> (Inl err, w\<lparr>sent := sent w @ [request]\<rparr>)
          | Inr response \<Rightarrow>
             (Inr \<lparr>dp_operation = operation_of d, delay = area_of response\<rparr>,
              w\<lparr>sent := sent w @ [request]\<rparr>)))"
  by (simp add: build_data_point_def circuit_request_def synth_def record_area_def area_of_def
      operation_of_def empty_data_point_def Let_def split: sum.splits option.splits)

lemma record_area_delay: "delay (record_area response result) = area_of response"
  by (simp add: record_area_def area_of_def split: option.splits)


lemma run_points_append:
  "run_points e (ps @ qs) w =
     (case run_points e ps w of
        (Inl err, w') \<Rightarrow> (Inl err, w')
      | (Inr dps, w') \<Rightarrow>
         (case run_points e qs w' of
            (Inl err, w'') \<Rightarrow> (Inl err, w'')
          | (Inr dps', w'') \<Rightarrow> (Inr (dps @ dps'), w'')))"
  by (induction ps arbitrary: w) (auto split: prod.splits sum.splits)

lemma build_data_point_stdout: "build_data_point e d w = (r, w') \<Longrightarrow> stdout w' = stdout w"
  by (auto simp: build_data_point_eq split: sum.splits)

lemma build_data_point_Inr:
  assumes "build_data_point e d w = (Inr dp, w')"
  shows "\<exists>request response. circuit_request e d = Inr request
           \<and> Compile e (sent w) request = Inr response
           \<and> dp = \<lparr>dp_operation = operation_of d, delay = area_of response\<rparr>
           \<and> w' = w\<lparr>sent := sent w @ [request]\<rparr>"
  using assms by (auto simp: build_data_point_eq split: sum.splits)

lemma run_points_Inr:
  "run_points e ps w = (Inr dps, w') \<Longrightarrow>
     map dp_operation dps = map (operation_of \<circ> snd) ps
     \<and> stdout w' = stdout w @ map (Line \<circ> fst) ps
     \<and> (\<exists>requests. sent w' = sent w @ requests
                     \<and> map Inr requests = map (circuit_request e \<circ> snd) ps)"
proof (induction ps arbitrary: w dps)
  case Nil
  then show ?case by simp
next
  case (Cons p ps)
  obtain msg d where p: "p = (msg, d)" by (cases p)
  from Cons.prems p obtain dp w1 dps1 where
    b: "build_data_point e d (print_line msg w) = (Inr dp, w1)" and
    r: "run_points e ps w1 = (Inr dps1, w')" and
    dps: "dps = dp # dps1"
    by (auto split: prod.splits sum.splits)
  from build_data_point_Inr [OF b] obtain request response where
    rq: "circuit_request e d = Inr request" and
    dp: "dp = \<lparr>dp_operation = operation_of d, delay = area_of response\<rparr>" and
    w1: "w1 = (print_line msg w)\<lparr>sent := sent (print_line msg w) @ [request]\<rparr>"
    by blast
  from Cons.IH [OF r] obtain requests where
    ih1: "map dp_operation dps1 = map (operation_of \<circ> snd) ps" and
    ih2: "stdout w' = stdout w1 @ map (Line \<circ> fst) ps" and
    ih3: "sent w' = sent w1 @ requests" and
    ih4: "map Inr requests = map (circuit_request e \<circ> snd) ps"
    by blast
  have "sent w' = sent w @ (request # requests)"
    using ih3 w1 by (simp add: print_line_def)
  moreover have "map Inr (request # requests) = map (circuit_request e \<circ> snd) (p # ps)"
    using ih4 rq p by simp
  ultimately have "\<exists>requests. sent w' = sent w @ requests
                     \<and> map Inr requests = map (circuit_request e \<circ> snd) (p # ps)"
    by blast
  moreover have "map dp_operation dps = map (operation_of \<circ> snd) (p # ps)"
    using ih1 dps dp p by simp
  moreover have "stdout w' = stdout w @ map (Line \<circ> fst) (p # ps)"
    using ih2 w1 p by (simp add: print_line_def)
  ultimately show ?case by blast
qed

lemma run_points_length:
  "run_points e ps w = (Inr dps, w') \<Longrightarrow>
     length dps = length ps \<and> length (sent w') = length (sent w) + length ps"
proof -
  assume a: "run_points e ps w = (Inr dps, w')"
  from run_points_Inr [OF a] obtain requests where
    1: "map dp_operation dps = map (operation_of \<circ> snd) ps" and
    2: "sent w' = sent w @ requests" and
    3: "map Inr requests = map (circuit_request e \<circ> snd) ps"
    by blast
  from 1 have "length dps = length ps" by (metis length_map)
  moreover from 3 have "length requests = length ps" by (metis length_map)
  ultimately show ?thesis using 2 by simp
qed

lemma run_points_Inl:
  "run_points e ps w = (Inl err, w') \<Longrightarrow>
     \<exists>k dps wk. k < length ps \<and> run_points e (take k ps) w = (Inr dps, wk)
       \<and> build_data_point e (snd (ps ! k)) (print_line (fst (ps ! k)) wk) = (Inl err, w')"
proof (induction ps arbitrary: w)
  case Nil
  then show ?case by simp
next
  case (Cons p ps)
  obtain msg d where p: "p = (msg, d)" by (cases p)
  show ?case
  proof (cases "build_data_point e d (print_line msg w)")
    case (Pair r w1)
    show ?thesis
    proof (cases r)
      case (Inl err1)
      with Pair Cons.prems p have "err1 = err" "w1 = w'" by auto
      with Pair Inl p have
        "0 < length (p # ps) \<and> run_points e (take 0 (p # ps)) w = (Inr [], w)
         \<and> build_data_point e (snd ((p # ps) ! 0)) (print_line (fst ((p # ps) ! 0)) w) = (Inl err, w')"
        by simp
      then show ?thesis by blast
    next
      case (Inr dp)
      with Pair Cons.prems p have "run_points e ps w1 = (Inl err, w')"
        by (auto split: prod.splits sum.splits)
      from Cons.IH [OF this] obtain k dps wk where
        k: "k < length ps" and
        pre: "run_points e (take k ps) w1 = (Inr dps, wk)" and
        f: "build_data_point e (snd (ps ! k)) (print_line (fst (ps ! k)) wk) = (Inl err, w')"
        by blast
      have "Suc k < length (p # ps)" using k by simp
      moreover have "run_points e (take (Suc k) (p # ps)) w = (Inr (dp # dps), wk)"
        using pre Pair Inr p by simp
      moreover have "build_data_point e (snd ((p # ps) ! Suc k))
                       (print_line (fst ((p # ps) ! Suc k)) wk) = (Inl err, w')"
        using f by simp
      ultimately show ?thesis by blast
    qed
  qed
qed

lemma run_points_Cons:
  "run_points e (p # ps) w =
     (case build_data_point e (snd p) (print_line (fst p) w) of
        (Inl err, w') \<Rightarrow> (Inl err, w')
      | (Inr dp, w') \<Rightarrow>
         (case run_points e ps w' of
            (Inl err, w'') \<Rightarrow> (Inl err, w'')
          | (Inr dps, w'') \<Rightarrow> (Inr (dp # dps), w'')))"
  by (cases p) simp

lemma run_points_fails_at:
  assumes "k < length ps"
    and "run_points e (take k ps) w = (Inr dps, wk)"
    and "build_data_point e (snd (ps ! k)) (print_line (fst (ps ! k)) wk) = (Inl err, w')"
  shows "run_points e ps w = (Inl err, w')"
proof -
  have "ps = take k ps @ ps ! k # drop (Suc k) ps"
    using assms(1) by (simp add: id_take_nth_drop)
  then have "run_points e ps w = run_points e (take k ps @ ps ! k # drop (Suc k) ps) w"
    by simp
  also have "\<dots> = (Inl err, w')"
    using assms(2,3) by (simp add: run_points_append run_points_Cons del: run_points.simps)
  finally show ?thesis .
qed

section \<open>The area of a datapoint\<close>

text \<open>
  C3: whatever the server answers, the area of the datapoint is the count that the answer's
  cell histogram holds under the key \<open>SB_LUT4\<close>, and zero when the histogram has no such
  key; a histogram without the key still gives a datapoint, not an exception. The request
  is sent once.
\<close>

theorem area_from_histogram:
  assumes "circuit_request e d = Inr request"
    and "Compile e (sent w) request = Inr response"
  shows "\<exists>dp. build_data_point e d w = (Inr dp, w\<lparr>sent := sent w @ [request]\<rparr>)
           \<and> delay dp = delay (record_area response empty_data_point)
           \<and> delay dp = (case cell_histogram response ''SB_LUT4'' of
                           Some n \<Rightarrow> n | None \<Rightarrow> 0)"
  using assms by (simp add: build_data_point_eq record_area_delay area_of_def)

theorem area_from_histogram_witness:
  "(\<exists>dp w'. build_data_point (fake_env (answering 7)) (call_args ''smul'' ''kSMul'' 2 [2, 2])
               fresh_world = (Inr dp, w') \<and> delay dp = 7)
   \<and> (\<exists>dp w'. build_data_point (fake_env answering_without_key)
                  (call_args ''smul'' ''kSMul'' 2 [2, 2]) fresh_world = (Inr dp, w')
                \<and> delay dp = 0)"
proof -
  let ?d = "call_args ''smul'' ''kSMul'' 2 [2, 2]"
  let ?r = "\<lparr>module_text = ''module smul_2 in smul_2_wrapper'',
             top_module_name = ''smul_2_wrapper''\<rparr>"
  have 1: "circuit_request (fake_env srv) ?d = Inr ?r" for srv
    by (simp add: circuit_request_def fake_env_def call_args_def str_def str_nat.simps
        digit_char_def Let_def)
  have 2: "Compile (fake_env (answering 7)) (sent fresh_world) ?r
             = Inr \<lparr>cell_histogram = [''SB_LUT4'' \<mapsto> 7]\<rparr>"
    by (simp add: fake_env_def answering_def)
  have 3: "Compile (fake_env answering_without_key) (sent fresh_world) ?r
             = Inr \<lparr>cell_histogram = [''SB_DFF'' \<mapsto> 3]\<rparr>"
    by (simp add: fake_env_def answering_without_key_def)
  show ?thesis
    using area_from_histogram [OF 1 2] area_from_histogram [OF 1 3] by auto
qed

section \<open>The multiply sweep\<close>

lemma mul_range: "py_range 2 flat_bit_count_sweep_ceiling (base_loop_stride * 2 ^ 3) = [2, 18, 34, 50]"
  by code_simp

lemma mul_op_points_calls:
  "map snd (mul_op_points op kop) =
     [call_args op kop node_count [mplier_count, mcand_count].
        mplier_count \<leftarrow> [2, 18, 34, 50], mcand_count \<leftarrow> [2, 18, 34, 50],
        node_count \<leftarrow> [2, 18, 34, 50]]"
  unfolding mul_op_points_def mul_range by simp

lemma mul_op_points_length: "length (mul_op_points op kop) = 64"
  unfolding mul_op_points_def mul_range by simp

lemma operation_of_call_args [simp]:
  "operation_of (call_args op kop node_bits operand_bits) =
     \<lparr>operation_op = kop, operation_bit_count = node_bits, operation_operands = operand_bits\<rparr>"
  by (simp add: operation_of_def call_args_def)

lemma add_data_points_Inr:
  "add_data_points model r = (Inr model', w') \<Longrightarrow>
     \<exists>dps. r = (Inr dps, w') \<and> model' = model\<lparr>data_points := data_points model @ dps\<rparr>"
  by (auto simp: add_data_points_def split: prod.splits sum.splits)

lemma circuit_request_fake: "\<exists>request. circuit_request (fake_env server) d = Inr request"
  by (simp add: circuit_request_def fake_env_def Let_def)

lemma run_points_succeeds:
  assumes "\<And>d. \<exists>request. circuit_request e d = Inr request"
    and "\<And>h request. \<exists>response. Compile e h request = Inr response"
  shows "\<exists>dps w'. run_points e ps w = (Inr dps, w')"
proof (induction ps arbitrary: w)
  case Nil
  show ?case by simp
next
  case (Cons p ps)
  let ?w = "print_line (fst p) w"
  obtain request where rq: "circuit_request e (snd p) = Inr request"
    using assms(1) by blast
  obtain response where rs: "Compile e (sent ?w) request = Inr response"
    using assms(2) by blast
  obtain dps w' where "run_points e ps (?w\<lparr>sent := sent ?w @ [request]\<rparr>) = (Inr dps, w')"
    using Cons.IH by blast
  then show ?case
    using rq rs by (simp add: run_points_Cons build_data_point_eq del: run_points.simps)
qed

lemma run_points_fake_answering:
  "\<exists>dps w'. run_points (fake_env (answering n)) ps w = (Inr dps, w')"
  by (rule run_points_succeeds) (simp_all add: circuit_request_fake, simp add: fake_env_def answering_def)

text \<open>
  C2: a multiply sweep walks through multiplier, multiplicand and result widths as three
  nested ranges, each over 2, 18, 34, 50 (the range from 2 below 65 in steps of 16). That
  is 64 calls, and a sweep that completes adds 64 datapoints, in loop order, each with the
  two operands multiplier and multiplicand width and with the result width of its call.
\<close>

theorem mul_sweep_cross_product:
  "py_range 2 flat_bit_count_sweep_ceiling (base_loop_stride * 2 ^ 3) = [2, 18, 34, 50]
   \<and> map snd (mul_op_points op kop) =
       [call_args op kop node_count [mplier_count, mcand_count].
          mplier_count \<leftarrow> [2, 18, 34, 50], mcand_count \<leftarrow> [2, 18, 34, 50],
          node_count \<leftarrow> [2, 18, 34, 50]]
   \<and> length (mul_op_points op kop) = 64
   \<and> (run_mul_op_and_add e op kop model w = (Inr model', w') \<longrightarrow>
        (\<exists>dps. data_points model' = data_points model @ dps
           \<and> length dps = 64
           \<and> map dp_operation dps =
               [\<lparr>operation_op = kop, operation_bit_count = node_count,
                 operation_operands = [mplier_count, mcand_count]\<rparr>.
                  mplier_count \<leftarrow> [2, 18, 34, 50], mcand_count \<leftarrow> [2, 18, 34, 50],
                  node_count \<leftarrow> [2, 18, 34, 50]]))"
proof (intro conjI impI)
  show "py_range 2 flat_bit_count_sweep_ceiling (base_loop_stride * 2 ^ 3) = [2, 18, 34, 50]"
    by (rule mul_range)
  show "map snd (mul_op_points op kop) =
       [call_args op kop node_count [mplier_count, mcand_count].
          mplier_count \<leftarrow> [2, 18, 34, 50], mcand_count \<leftarrow> [2, 18, 34, 50],
          node_count \<leftarrow> [2, 18, 34, 50]]"
    by (rule mul_op_points_calls)
  show "length (mul_op_points op kop) = 64"
    by (rule mul_op_points_length)
next
  assume run: "run_mul_op_and_add e op kop model w = (Inr model', w')"
  let ?m = "add_op_model kop [RESULT_BIT_COUNT, OPERAND_BIT_COUNT 0, OPERAND_BIT_COUNT 1] model"
  from run obtain dps where
    r: "run_points e (mul_op_points op kop) w = (Inr dps, w')" and
    m: "model' = ?m\<lparr>data_points := data_points ?m @ dps\<rparr>"
    unfolding run_mul_op_and_add_def by (blast dest: add_data_points_Inr)
  have "data_points model' = data_points model @ dps"
    using m by (simp add: add_op_model_def)
  moreover have "length dps = 64"
    using run_points_length [OF r] mul_op_points_length by simp
  moreover have "map dp_operation dps = map operation_of (map snd (mul_op_points op kop))"
    using run_points_Inr [OF r] by simp
  then have "map dp_operation dps =
               [\<lparr>operation_op = kop, operation_bit_count = node_count,
                 operation_operands = [mplier_count, mcand_count]\<rparr>.
                  mplier_count \<leftarrow> [2, 18, 34, 50], mcand_count \<leftarrow> [2, 18, 34, 50],
                  node_count \<leftarrow> [2, 18, 34, 50]]"
    unfolding mul_op_points_calls by simp
  ultimately show "\<exists>dps. data_points model' = data_points model @ dps
           \<and> length dps = 64
           \<and> map dp_operation dps =
               [\<lparr>operation_op = kop, operation_bit_count = node_count,
                 operation_operands = [mplier_count, mcand_count]\<rparr>.
                  mplier_count \<leftarrow> [2, 18, 34, 50], mcand_count \<leftarrow> [2, 18, 34, 50],
                  node_count \<leftarrow> [2, 18, 34, 50]]"
    by blast
qed

theorem mul_sweep_cross_product_witness:
  "\<exists>model' w'. run_mul_op_and_add (fake_env (answering 7)) ''smul'' ''kSMul''
                  \<lparr>op_models = [], data_points = []\<rparr> fresh_world = (Inr model', w')
     \<and> length (data_points model') = 64
     \<and> dp_operation (data_points model' ! 1)
         = \<lparr>operation_op = ''kSMul'', operation_bit_count = 18, operation_operands = [2, 2]\<rparr>"
proof -
  let ?m = "\<lparr>op_models = [], data_points = []\<rparr>"
  obtain dps w' where
    r: "run_points (fake_env (answering 7)) (mul_op_points ''smul'' ''kSMul'') fresh_world
          = (Inr dps, w')"
    using run_points_fake_answering by blast
  let ?m' = "(add_op_model ''kSMul'' [RESULT_BIT_COUNT, OPERAND_BIT_COUNT 0, OPERAND_BIT_COUNT 1] ?m)
               \<lparr>data_points := dps\<rparr>"
  have run: "run_mul_op_and_add (fake_env (answering 7)) ''smul'' ''kSMul'' ?m fresh_world
               = (Inr ?m', w')"
    using r by (simp add: run_mul_op_and_add_def add_data_points_def add_op_model_def)
  from mul_sweep_cross_product [of "''smul''" "''kSMul''" "fake_env (answering 7)" ?m fresh_world ?m' w'] run
  obtain dps' where
    "data_points ?m' = data_points ?m @ dps'" "length dps' = 64"
    "map dp_operation dps' =
               [\<lparr>operation_op = ''kSMul'', operation_bit_count = node_count,
                 operation_operands = [mplier_count, mcand_count]\<rparr>.
                  mplier_count \<leftarrow> [2, 18, 34, 50], mcand_count \<leftarrow> [2, 18, 34, 50],
                  node_count \<leftarrow> [2, 18, 34, 50]]"
    by blast
  then have "length (data_points ?m') = 64" and
    "map dp_operation (data_points ?m') ! 1 = \<lparr>operation_op = ''kSMul'', operation_bit_count = 18, operation_operands = [2, 2]\<rparr>"
    by simp_all
  then have "length (data_points ?m') = 64 \<and> dp_operation (data_points ?m' ! 1) = \<lparr>operation_op = ''kSMul'', operation_bit_count = 18, operation_operands = [2, 2]\<rparr>"
    by simp
  with run show ?thesis by blast
qed

section \<open>A whole run\<close>

lemma production_points_length: "length production_points = 128"
  by (simp add: production_points_def mul_op_points_length)

lemma mul_op_points_progress: "p \<in> set (mul_op_points op kop) \<Longrightarrow> take 7 (fst p) = ''# mul: ''"
  by (auto simp: mul_op_points_def)

lemma production_points_progress: "p \<in> set production_points \<Longrightarrow> take 7 (fst p) = ''# mul: ''"
  by (auto simp: production_points_def mul_op_points_progress)

lemma fold_free_ops:
  "fold (\<lambda>free_op m. m\<lparr>op_models := op_models m
                           @ [\<lparr>op_model_op = free_op, op_model_estimator = Fixed 0\<rparr>]\<rparr>) names model
     = model\<lparr>op_models := op_models model
          @ map (\<lambda>free_op. \<lparr>op_model_op = free_op, op_model_estimator = Fixed 0\<rparr>) names\<rparr>"
  by (induction names arbitrary: model) simp_all

lemma run_characterization_eq:
  "run_characterization e w =
     (case run_points e production_points w of
        (Inl err, w') \<Rightarrow> (Inl err, w')
      | (Inr dps, w') \<Rightarrow>
         (Inr (),
          print_model (emitted_model dps)
            (print_line ''# proto-message: xls.delay_model.DelayModel''
               (print_line ''# proto-file: xls/delay_model/delay_model.proto'' w'))))"
  by (simp add: run_characterization_def run_mul_op_and_add_def add_data_points_def
      production_points_def run_points_append add_free_ops_def fold_free_ops emitted_model_def
      add_op_model_def split: prod.splits sum.splits)


lemma run_points_failure_output:
  assumes "run_points e ps w = (Inl err, w')"
  shows "\<exists>k<length ps. stdout w' = stdout w @ map (Line \<circ> fst) (take (Suc k) ps)"
proof -
  from run_points_Inl [OF assms] obtain k dps wk where
    k: "k < length ps" and
    pre: "run_points e (take k ps) w = (Inr dps, wk)" and
    f: "build_data_point e (snd (ps ! k)) (print_line (fst (ps ! k)) wk) = (Inl err, w')"
    by blast
  have "stdout wk = stdout w @ map (Line \<circ> fst) (take k ps)"
    using run_points_Inr [OF pre] by simp
  moreover have "stdout w' = stdout wk @ [Line (fst (ps ! k))]"
    using build_data_point_stdout [OF f] by (simp add: print_line_def)
  ultimately have "stdout w' = stdout w @ map (Line \<circ> fst) (take (Suc k) ps)"
    using k by (simp add: take_Suc_conv_app_nth)
  with k show ?thesis by blast
qed

lemma Compile_fake: "Compile (fake_env server) = server"
  by (simp add: fake_env_def)

text \<open>
  C4: a run either prints one complete record or no record. If the server rejects the
  request of a sweep point, \<open>run_characterization\<close> ends with that very exception and
  with the world as it was when the request came back: the request has been sent once and
  nothing is sent or printed after it. A run that ends with an exception has printed
  nothing but the progress comments of the points it reached (each a line that starts
  with \<open># mul:\<close>), so neither the two schema comments nor a record. A run that ends
  normally has completed all 128 points, one request each, and only then prints the two
  schema comments and the record with all 128 datapoints.
\<close>

theorem complete_record_or_none:
  "(k < length production_points
      \<and> run_points e (take k production_points) w = (Inr dps, wk)
      \<and> circuit_request e (snd (production_points ! k)) = Inr request
      \<and> Compile e (sent wk) request = Inl err
    \<longrightarrow> run_characterization e w =
          (Inl err, wk\<lparr>stdout := stdout wk @ [Line (fst (production_points ! k))],
                        sent := sent wk @ [request]\<rparr>))
   \<and> (run_characterization e w = (Inl err', w')
    \<longrightarrow> (\<exists>j<length production_points.
            stdout w' = stdout w @ map (Line \<circ> fst) (take (Suc j) production_points)))
   \<and> (run_characterization e w = (Inr u, w')
    \<longrightarrow> (\<exists>dps' w''. run_points e production_points w = (Inr dps', w'')
            \<and> length dps' = length production_points
            \<and> sent w' = sent w''
            \<and> length (sent w') = length (sent w) + length production_points
            \<and> stdout w' = stdout w @ map (Line \<circ> fst) production_points
                 @ [Line ''# proto-file: xls/delay_model/delay_model.proto'',
                    Line ''# proto-message: xls.delay_model.DelayModel'',
                    Text_Format (emitted_model dps')]))
   \<and> length production_points = 128
   \<and> (\<forall>p\<in>set production_points. take 7 (fst p) = ''# mul: '')"
proof (intro conjI impI ballI)
  assume a: "k < length production_points
      \<and> run_points e (take k production_points) w = (Inr dps, wk)
      \<and> circuit_request e (snd (production_points ! k)) = Inr request
      \<and> Compile e (sent wk) request = Inl err"
  let ?wf = "wk\<lparr>stdout := stdout wk @ [Line (fst (production_points ! k))],
                sent := sent wk @ [request]\<rparr>"
  have "build_data_point e (snd (production_points ! k))
          (print_line (fst (production_points ! k)) wk) = (Inl err, ?wf)"
    using a by (simp add: build_data_point_eq print_line_def)
  with a have "run_points e production_points w = (Inl err, ?wf)"
    by (blast intro: run_points_fails_at)
  then show "run_characterization e w = (Inl err, ?wf)"
    by (simp add: run_characterization_eq)
next
  assume "run_characterization e w = (Inl err', w')"
  then have "run_points e production_points w = (Inl err', w')"
    by (auto simp: run_characterization_eq split: prod.splits sum.splits)
  then show "\<exists>j<length production_points.
            stdout w' = stdout w @ map (Line \<circ> fst) (take (Suc j) production_points)"
    by (rule run_points_failure_output)
next
  assume "run_characterization e w = (Inr u, w')"
  then obtain dps' w'' where
    r: "run_points e production_points w = (Inr dps', w'')" and
    w': "w' = print_model (emitted_model dps')
            (print_line ''# proto-message: xls.delay_model.DelayModel''
               (print_line ''# proto-file: xls/delay_model/delay_model.proto'' w''))"
    by (auto simp: run_characterization_eq split: prod.splits sum.splits)
  have "stdout w'' = stdout w @ map (Line \<circ> fst) production_points"
    using run_points_Inr [OF r] by simp
  then have "stdout w' = stdout w @ map (Line \<circ> fst) production_points
                 @ [Line ''# proto-file: xls/delay_model/delay_model.proto'',
                    Line ''# proto-message: xls.delay_model.DelayModel'',
                    Text_Format (emitted_model dps')]"
    using w' by (simp add: print_model_def print_line_def)
  moreover have "sent w' = sent w''"
    using w' by (simp add: print_model_def print_line_def)
  moreover have "length dps' = length production_points"
    and "length (sent w'') = length (sent w) + length production_points"
    using run_points_length [OF r] by simp_all
  ultimately show "\<exists>dps' w''. run_points e production_points w = (Inr dps', w'')
            \<and> length dps' = length production_points
            \<and> sent w' = sent w''
            \<and> length (sent w') = length (sent w) + length production_points
            \<and> stdout w' = stdout w @ map (Line \<circ> fst) production_points
                 @ [Line ''# proto-file: xls/delay_model/delay_model.proto'',
                    Line ''# proto-message: xls.delay_model.DelayModel'',
                    Text_Format (emitted_model dps')]"
    using r by auto
next
  show "length production_points = 128"
    by (rule production_points_length)
next
  fix p assume "p \<in> set production_points"
  then show "take 7 (fst p) = ''# mul: ''"
    by (rule production_points_progress)
qed

theorem complete_record_or_none_witness:
  "run_characterization (fake_env (failing_after 2)) fresh_world =
     (Inl (RpcError ''rejected''),
      \<lparr>stdout = [Line ''# mul: smul, 2 * 2 -> 2'', Line ''# mul: smul, 2 * 2 -> 18'',
                 Line ''# mul: smul, 2 * 2 -> 34''],
       sent = [\<lparr>module_text = ''module smul_2 in smul_2_wrapper'',
                 top_module_name = ''smul_2_wrapper''\<rparr>,
               \<lparr>module_text = ''module smul_18 in smul_18_wrapper'',
                 top_module_name = ''smul_18_wrapper''\<rparr>,
               \<lparr>module_text = ''module smul_34 in smul_34_wrapper'',
                 top_module_name = ''smul_34_wrapper''\<rparr>]\<rparr>)
   \<and> (\<exists>w'. run_characterization (fake_env (answering 7)) fresh_world = (Inr (), w')
          \<and> length (stdout w') = 131 \<and> length (sent w') = 128
          \<and> last (butlast (stdout w')) = Line ''# proto-message: xls.delay_model.DelayModel'')"
proof -
  let ?e = "fake_env (failing_after 2)"
  let ?r1 = "\<lparr>module_text = ''module smul_2 in smul_2_wrapper'',
              top_module_name = ''smul_2_wrapper''\<rparr>"
  let ?r2 = "\<lparr>module_text = ''module smul_18 in smul_18_wrapper'',
              top_module_name = ''smul_18_wrapper''\<rparr>"
  let ?r3 = "\<lparr>module_text = ''module smul_34 in smul_34_wrapper'',
              top_module_name = ''smul_34_wrapper''\<rparr>"
  let ?dps = "[\<lparr>dp_operation = \<lparr>operation_op = ''kSMul'', operation_bit_count = 2,
                                 operation_operands = [2, 2]\<rparr>, delay = 7\<rparr>,
               \<lparr>dp_operation = \<lparr>operation_op = ''kSMul'', operation_bit_count = 18,
                                 operation_operands = [2, 2]\<rparr>, delay = 7\<rparr>]"
  let ?wk = "\<lparr>stdout = [Line ''# mul: smul, 2 * 2 -> 2'', Line ''# mul: smul, 2 * 2 -> 18''],
              sent = [?r1, ?r2]\<rparr>"
  have pts: "take 3 production_points =
     [(''# mul: smul, 2 * 2 -> 2'', call_args ''smul'' ''kSMul'' 2 [2, 2]),
      (''# mul: smul, 2 * 2 -> 18'', call_args ''smul'' ''kSMul'' 18 [2, 2]),
      (''# mul: smul, 2 * 2 -> 34'', call_args ''smul'' ''kSMul'' 34 [2, 2])]"
    by code_simp
  have "take 2 (take 3 production_points) = take 2 production_points"
    by simp
  then have pts2: "take 2 production_points =
     [(''# mul: smul, 2 * 2 -> 2'', call_args ''smul'' ''kSMul'' 2 [2, 2]),
      (''# mul: smul, 2 * 2 -> 18'', call_args ''smul'' ''kSMul'' 18 [2, 2])]"
    unfolding pts by simp
  have "take 3 production_points ! 2 = production_points ! 2"
    by simp
  then have pt: "production_points ! 2 =
      (''# mul: smul, 2 * 2 -> 34'', call_args ''smul'' ''kSMul'' 34 [2, 2])"
    unfolding pts by simp
  have c1: "circuit_request ?e (call_args ''smul'' ''kSMul'' 2 [2, 2]) = Inr ?r1"
    and c2: "circuit_request ?e (call_args ''smul'' ''kSMul'' 18 [2, 2]) = Inr ?r2"
    and c3: "circuit_request ?e (call_args ''smul'' ''kSMul'' 34 [2, 2]) = Inr ?r3"
    by (simp_all add: circuit_request_def fake_env_def call_args_def str_def str_nat.simps
        digit_char_def Let_def)
  have h1: "2 < length production_points"
    by (simp add: production_points_length)
  have h2: "run_points ?e (take 2 production_points) fresh_world = (Inr ?dps, ?wk)"
    unfolding pts2
    by (simp add: build_data_point_eq c1 c2 print_line_def fresh_world_def Compile_fake
        failing_after_def area_of_def)
  have h3: "circuit_request ?e (snd (production_points ! 2)) = Inr ?r3"
    unfolding pt using c3 by simp
  have h4: "Compile ?e (sent ?wk) ?r3 = Inl (RpcError ''rejected'')"
    by (simp add: Compile_fake failing_after_def)
  have fail: "run_characterization ?e fresh_world =
      (Inl (RpcError ''rejected''),
       ?wk\<lparr>stdout := stdout ?wk @ [Line (fst (production_points ! 2))],
            sent := sent ?wk @ [?r3]\<rparr>)"
    using complete_record_or_none [of 2 ?e fresh_world ?dps ?wk ?r3 "RpcError ''rejected''"]
      h1 h2 h3 h4 by blast
  have part1: "run_characterization ?e fresh_world =
     (Inl (RpcError ''rejected''),
      \<lparr>stdout = [Line ''# mul: smul, 2 * 2 -> 2'', Line ''# mul: smul, 2 * 2 -> 18'',
                 Line ''# mul: smul, 2 * 2 -> 34''],
       sent = [?r1, ?r2, ?r3]\<rparr>)"
    using fail unfolding pt by simp
  let ?a = "fake_env (answering 7)"
  obtain dps w1 where "run_points ?a production_points fresh_world = (Inr dps, w1)"
    using run_points_fake_answering by blast
  then obtain w' where ok: "run_characterization ?a fresh_world = (Inr (), w')"
    by (simp add: run_characterization_eq)
  from complete_record_or_none [of _ ?a fresh_world _ _ _ _ _ w' "()"] ok
  obtain dps' w'' where
    "length (sent w') = length (sent fresh_world) + length production_points"
    "stdout w' = stdout fresh_world @ map (Line \<circ> fst) production_points
                 @ [Line ''# proto-file: xls/delay_model/delay_model.proto'',
                    Line ''# proto-message: xls.delay_model.DelayModel'',
                    Text_Format (emitted_model dps')]"
    by blast
  then have "length (stdout w') = 131 \<and> length (sent w') = 128
          \<and> last (butlast (stdout w')) = Line ''# proto-message: xls.delay_model.DelayModel''"
    by (simp add: production_points_length fresh_world_def butlast_append)
  with ok part1 show ?thesis by blast
qed

section \<open>The free operations\<close>

lemma FREE_OPS_value:
  "FREE_OPS = [''kArray'', ''kArrayConcat'', ''kArrayIndex'', ''kBitSlice'', ''kConcat'',
               ''kIdentitykLiteral'', ''kParam'', ''kReverse'', ''kTuple'', ''kTupleIndex'',
               ''kZeroExt'']"
  by code_simp

lemma run_characterization_emits:
  assumes "run_characterization e w = (Inr u, w')"
  shows "\<exists>dps. last (stdout w') = Text_Format (emitted_model dps)
           \<and> map dp_operation dps = map (operation_of \<circ> snd) production_points"
proof -
  from assms obtain dps w'' where
    r: "run_points e production_points w = (Inr dps, w'')" and
    w': "w' = print_model (emitted_model dps)
            (print_line ''# proto-message: xls.delay_model.DelayModel''
               (print_line ''# proto-file: xls/delay_model/delay_model.proto'' w''))"
    by (auto simp: run_characterization_eq split: prod.splits sum.splits)
  have "last (stdout w') = Text_Format (emitted_model dps)"
    using w' by (simp add: print_model_def)
  moreover have "map dp_operation dps = map (operation_of \<circ> snd) production_points"
    using run_points_Inr [OF r] by simp
  ultimately show ?thesis by blast
qed

lemma production_operation_names:
  "operation_op ` operation_of ` snd ` set production_points \<subseteq> {''kSMul'', ''kUMul''}"
  by (auto simp: production_points_def mul_op_points_def)

text \<open>
  What does hold of the list as the program computes it: each of its eleven names gets
  exactly one entry, with the fixed estimator 0, and no datapoint.
\<close>

lemma FREE_OPS_distinct: "distinct FREE_OPS"
  unfolding FREE_OPS_value by simp

lemma FREE_OPS_not_mul: "''kSMul'' \<notin> set FREE_OPS" "''kUMul'' \<notin> set FREE_OPS"
  unfolding FREE_OPS_value by simp_all

lemma filter_free_entries:
  "distinct names \<Longrightarrow> name \<in> set names \<Longrightarrow>
     [om \<leftarrow> map (\<lambda>free_op. \<lparr>op_model_op = free_op, op_model_estimator = Fixed 0\<rparr>) names.
        op_model_op om = name]
       = [\<lparr>op_model_op = name, op_model_estimator = Fixed 0\<rparr>]"
  by (induction names) (auto simp: filter_empty_conv)

lemma free_ops_entries:
  assumes "run_characterization e w = (Inr u, w')" and "name \<in> set FREE_OPS"
  shows "\<exists>m. last (stdout w') = Text_Format m
           \<and> [om \<leftarrow> op_models m. op_model_op om = name]
               = [\<lparr>op_model_op = name, op_model_estimator = Fixed 0\<rparr>]
           \<and> [dp \<leftarrow> data_points m. operation_op (dp_operation dp) = name] = []"
proof -
  from run_characterization_emits [OF assms(1)] obtain dps where
    l: "last (stdout w') = Text_Format (emitted_model dps)" and
    ops: "map dp_operation dps = map (operation_of \<circ> snd) production_points"
    by blast
  have ne: "name \<noteq> ''kSMul''" "name \<noteq> ''kUMul''"
    using assms(2) FREE_OPS_not_mul by blast+
  have 1: "[om \<leftarrow> op_models (emitted_model dps). op_model_op om = name]
               = [\<lparr>op_model_op = name, op_model_estimator = Fixed 0\<rparr>]"
    using ne filter_free_entries [OF FREE_OPS_distinct assms(2)]
    by (simp add: emitted_model_def)
  have "operation_op (dp_operation dp) \<noteq> name" if "dp \<in> set dps" for dp
  proof -
    from that have "dp_operation dp \<in> set (map dp_operation dps)" by simp
    then have "dp_operation dp \<in> operation_of ` snd ` set production_points"
      unfolding ops by auto
    then have "operation_op (dp_operation dp) \<in> {''kSMul'', ''kUMul''}"
      using production_operation_names by blast
    then show ?thesis using ne by auto
  qed
  then have 2: "[dp \<leftarrow> data_points (emitted_model dps). operation_op (dp_operation dp) = name] = []"
    by (simp add: emitted_model_def filter_empty_conv)
  from l 1 2 show ?thesis by blast
qed

text \<open>
  C1: every free operation, identity and literal among them, should have exactly one
  entry with the fixed estimator 0 in the emitted record. The two string literals of
  \<open>FREE_OPS\<close> are joined without a space, so the list holds the one name
  \<open>kIdentitykLiteral\<close> in place of \<open>kIdentity\<close> and \<open>kLiteral\<close>: the record of a
  complete run has no entry for either of the two, and one entry for the fused name.
\<close>

theorem free_ops_fused_name:
  "FREE_OPS = [''kArray'', ''kArrayConcat'', ''kArrayIndex'', ''kBitSlice'', ''kConcat'',
               ''kIdentitykLiteral'', ''kParam'', ''kReverse'', ''kTuple'', ''kTupleIndex'',
               ''kZeroExt'']
   \<and> ''kIdentity'' \<notin> set FREE_OPS \<and> ''kLiteral'' \<notin> set FREE_OPS
   \<and> (\<exists>w' m. run_characterization (fake_env (answering 7)) fresh_world = (Inr (), w')
         \<and> last (stdout w') = Text_Format m
         \<and> [om \<leftarrow> op_models m. op_model_op om = ''kIdentity'' \<or> op_model_op om = ''kLiteral''] = []
         \<and> [om \<leftarrow> op_models m. op_model_op om = ''kIdentitykLiteral'']
             = [\<lparr>op_model_op = ''kIdentitykLiteral'', op_model_estimator = Fixed 0\<rparr>])"
proof -
  let ?a = "fake_env (answering 7)"
  obtain dps w1 where "run_points ?a production_points fresh_world = (Inr dps, w1)"
    using run_points_fake_answering by blast
  then obtain w' where ok: "run_characterization ?a fresh_world = (Inr (), w')"
    by (simp add: run_characterization_eq)
  from run_characterization_emits [OF ok] obtain dps' where
    l: "last (stdout w') = Text_Format (emitted_model dps')"
    by blast
  have "[om \<leftarrow> op_models (emitted_model dps').
           op_model_op om = ''kIdentity'' \<or> op_model_op om = ''kLiteral''] = []"
    unfolding emitted_model_def FREE_OPS_value by simp
  moreover have "[om \<leftarrow> op_models (emitted_model dps'). op_model_op om = ''kIdentitykLiteral'']
             = [\<lparr>op_model_op = ''kIdentitykLiteral'', op_model_estimator = Fixed 0\<rparr>]"
    unfolding emitted_model_def FREE_OPS_value by simp
  moreover have "''kIdentity'' \<notin> set FREE_OPS" "''kLiteral'' \<notin> set FREE_OPS"
    unfolding FREE_OPS_value by simp_all
  ultimately show ?thesis
    using ok l by (intro conjI exI [of _ w'] exI [of _ "emitted_model dps'"]) (rule FREE_OPS_value)
qed

section \<open>Bit counts and the select sweep\<close>

lemma min_bit_count_unsigned_bitlen: "min_bit_count_unsigned v = bitlen v"
proof (induction v rule: min_bit_count_unsigned.induct)
  case (1 v)
  show ?case
  proof (cases "v \<le> 0")
    case True
    then show ?thesis
      by (subst min_bit_count_unsigned.simps) (simp add: bitlen_eq_zero_iff)
  next
    case False
    with 1 have "min_bit_count_unsigned (v div 2) = bitlen (v div 2)" by simp
    with False show ?thesis
      by (subst min_bit_count_unsigned.simps, subst compute_bitlen) simp
  qed
qed

lemma min_bit_count_unsigned_nonneg: "0 \<le> min_bit_count_unsigned v"
  by (simp add: min_bit_count_unsigned_bitlen bitlen_nonneg)

lemma min_bit_count_unsigned_pred:
  assumes "1 \<le> n"
  shows "min_bit_count_unsigned (n - 1) = ceil_log2 n"
proof (cases "n = 1")
  case True
  then show ?thesis
    by (simp add: min_bit_count_unsigned_bitlen ceil_log2_def)
next
  case False
  with assms have pos: "0 < n - 1" by simp
  define k where "k = nat (bitlen (n - 1) - 1)"
  have kb: "bitlen (n - 1) = int k + 1"
    using pos by (simp add: k_def bitlen_alt_def)
  from bitlen_bounds [OF pos] have "2 ^ k \<le> n - 1" "n - 1 < 2 ^ nat (int k + 1)"
    unfolding kb k_def [symmetric] by simp_all
  then have "2 ^ k < n" "n \<le> 2 ^ (k + 1)"
    by (simp_all add: nat_add_distrib)
  then have "2 ^ k < nat n" "nat n \<le> 2 ^ (k + 1)"
    using assms by (simp_all add: nat_less_iff nat_le_iff)
  then have "\<lceil>log (real 2) (real (nat n))\<rceil> = int k + 1"
    by (intro ceiling_log_nat_eq_if) simp_all
  then show ?thesis
    using assms kb by (simp add: ceil_log2_def min_bit_count_unsigned_bitlen)
qed

lemma select_power_of_two:
  assumes "1 \<le> n"
  shows "2 ^ nat (min_bit_count_unsigned (n - 1)) = n \<longleftrightarrow> (\<exists>k::nat. n = 2 ^ k)"
proof
  assume "2 ^ nat (min_bit_count_unsigned (n - 1)) = n"
  then have "n = 2 ^ nat (min_bit_count_unsigned (n - 1))" by simp
  then show "\<exists>k::nat. n = 2 ^ k" by blast
next
  assume "\<exists>k::nat. n = 2 ^ k"
  then obtain k :: nat where n: "n = 2 ^ k" by blast
  have "bitlen (2 ^ k - 1) = int k"
  proof (rule antisym)
    show "bitlen (2 ^ k - 1) \<le> int k"
      by (simp add: bitlen_le_iff_power)
    show "int k \<le> bitlen (2 ^ k - 1)"
    proof (cases k)
      case 0
      then show ?thesis by simp
    next
      case (Suc j)
      have "(2::int) ^ j \<le> 2 ^ Suc j - 1"
        using one_le_power [of "2::int" j] by simp
      then have "(2::int) ^ (nat (int (Suc j)) - 1) \<le> 2 ^ Suc j - 1"
        by (simp only: nat_int diff_Suc_1)
      then show ?thesis
        unfolding Suc by (subst bitlen_ge_iff_power) blast
    qed
  qed
  then show "2 ^ nat (min_bit_count_unsigned (n - 1)) = n"
    by (simp add: n min_bit_count_unsigned_bitlen)
qed


lemma min_bit_count_unsigned_values:
  "min_bit_count_unsigned 3 = 2" "min_bit_count_unsigned 4 = 3" "min_bit_count_unsigned 7 = 3"
  "min_bit_count_unsigned 1 = 1" "min_bit_count_unsigned 64 = 7"
  by code_simp+

text \<open>
  C5: in a call of the select sweep the selector, operand 0, has width
  \<open>ceil(log2(num_cases))\<close>. When \<open>num_cases\<close> is a power of two the operands are the
  selector and \<open>num_cases\<close> cases, the span \<open>cases\<close> starts at operand 1 and has
  \<open>num_cases\<close> operands, and there is no default; otherwise one more operand follows the
  cases and the attribute \<open>default\<close> names it. For 4 cases the selector has width 2 and
  there is no default; for 5 cases it has width 3 and there is one default operand, at
  index 6. The sweep makes exactly these calls, for the case counts and widths of its
  two ranges.
\<close>

theorem select_call_shape:
  "(1 \<le> num_cases \<longrightarrow>
      (let d = select_call op kop num_cases bit_count
       in hd (num_operand_bits d) = ceil_log2 num_cases
          \<and> num_node_bits d = bit_count
          \<and> operand_span_attributes d = [(''cases'', 1, num_cases)]
          \<and> (if \<exists>k::nat. num_cases = 2 ^ k
              then num_operand_bits d = ceil_log2 num_cases # replicate (nat num_cases) bit_count
                   \<and> operand_attributes d = []
              else num_operand_bits d
                     = ceil_log2 num_cases # replicate (nat num_cases) bit_count @ [bit_count]
                   \<and> operand_attributes d = [(''default'', num_cases + 1)])))
   \<and> num_operand_bits (select_call op kop 4 bit_count) = 2 # replicate 4 bit_count
   \<and> operand_attributes (select_call op kop 4 bit_count) = []
   \<and> num_operand_bits (select_call op kop 5 bit_count) = 3 # replicate 5 bit_count @ [bit_count]
   \<and> operand_attributes (select_call op kop 5 bit_count) = [(''default'', 6)]
   \<and> operand_span_attributes (select_call op kop 5 bit_count) = [(''cases'', 1, 5)]
   \<and> map snd (select_op_points op kop) =
       [select_call op kop n b.
          n \<leftarrow> py_range 2 operand_count_sweep_ceiling base_loop_stride,
          b \<leftarrow> py_range 1 flat_bit_count_sweep_ceiling base_loop_stride]"
proof (intro conjI impI)
  assume n: "1 \<le> num_cases"
  have r: "replicate (nat (num_cases + 1)) bit_count = replicate (nat num_cases) bit_count @ [bit_count]"
    using n by (simp add: nat_add_distrib replicate_append_same)
  show "let d = select_call op kop num_cases bit_count
       in hd (num_operand_bits d) = ceil_log2 num_cases
          \<and> num_node_bits d = bit_count
          \<and> operand_span_attributes d = [(''cases'', 1, num_cases)]
          \<and> (if \<exists>k::nat. num_cases = 2 ^ k
              then num_operand_bits d = ceil_log2 num_cases # replicate (nat num_cases) bit_count
                   \<and> operand_attributes d = []
              else num_operand_bits d
                     = ceil_log2 num_cases # replicate (nat num_cases) bit_count @ [bit_count]
                   \<and> operand_attributes d = [(''default'', num_cases + 1)])"
    using select_power_of_two [OF n] min_bit_count_unsigned_pred [OF n] r
    by (simp add: select_call_def call_args_def Let_def)
next
  show "num_operand_bits (select_call op kop 4 bit_count) = 2 # replicate 4 bit_count"
    by (simp add: select_call_def call_args_def Let_def min_bit_count_unsigned_values)
  show "operand_attributes (select_call op kop 4 bit_count) = []"
    by (simp add: select_call_def call_args_def Let_def min_bit_count_unsigned_values)
  show "num_operand_bits (select_call op kop 5 bit_count) = 3 # replicate 5 bit_count @ [bit_count]"
    by (simp add: select_call_def call_args_def Let_def min_bit_count_unsigned_values
        eval_nat_numeral)
  show "operand_attributes (select_call op kop 5 bit_count) = [(''default'', 6)]"
    by (simp add: select_call_def call_args_def Let_def min_bit_count_unsigned_values)
  show "operand_span_attributes (select_call op kop 5 bit_count) = [(''cases'', 1, 5)]"
    by (simp add: select_call_def call_args_def Let_def min_bit_count_unsigned_values)
  show "map snd (select_op_points op kop) =
       [select_call op kop n b.
          n \<leftarrow> py_range 2 operand_count_sweep_ceiling base_loop_stride,
          b \<leftarrow> py_range 1 flat_bit_count_sweep_ceiling base_loop_stride]"
    by (simp add: select_op_points_def map_concat comp_def)
qed

theorem select_call_shape_witness:
  "(1::int) \<le> 8
   \<and> num_operand_bits (select_call ''sel'' ''kSel'' 8 3) = [ceil_log2 8, 3, 3, 3, 3, 3, 3, 3, 3]
   \<and> operand_attributes (select_call ''sel'' ''kSel'' 8 3) = []
   \<and> (1::int) \<le> 6
   \<and> num_operand_bits (select_call ''sel'' ''kSel'' 6 3) = [ceil_log2 6, 3, 3, 3, 3, 3, 3, 3]
   \<and> operand_attributes (select_call ''sel'' ''kSel'' 6 3) = [(''default'', 7)]"
proof -
  have p8: "\<exists>k::nat. (8::int) = 2 ^ k"
    by (rule exI [of _ 3]) simp
  have p6: "\<not> (\<exists>k::nat. (6::int) = 2 ^ k)"
  proof
    assume "\<exists>k::nat. (6::int) = 2 ^ k"
    then obtain k :: nat where k: "(6::int) = 2 ^ k" by blast
    have "k < 3"
    proof (rule ccontr)
      assume "\<not> k < 3"
      then have "(2::int) ^ 3 \<le> 2 ^ k" by (intro power_increasing) simp_all
      with k show False by simp
    qed
    then have "k = 0 \<or> k = 1 \<or> k = 2" by arith
    with k show False by auto
  qed
  have n8: "replicate (nat 8) (3::int) = [3, 3, 3, 3, 3, 3, 3, 3]"
    and n6: "replicate (nat 6) (3::int) = [3, 3, 3, 3, 3, 3]"
    by (simp_all add: eval_nat_numeral)
  show ?thesis
    using select_call_shape [of 8 "''sel''" "''kSel''" 3] select_call_shape [of 6 "''sel''" "''kSel''" 3]
      p8 p6 n8 n6
    by (simp add: Let_def)
qed

section \<open>The encode sweep\<close>

lemma py_range_step:
  "x \<in> set (py_range start stop step) \<Longrightarrow> (x - start) mod step = 0"
proof (induction start stop step rule: py_range.induct)
  case (1 start stop step)
  from "1.prems" have c: "0 < step \<and> start < stop" and
    x: "x = start \<or> x \<in> set (py_range (start + step) stop step)"
    by (subst (asm) py_range.simps, simp split: if_splits)+
  from x show ?case
  proof
    assume "x = start"
    then show ?thesis by simp
  next
    assume "x \<in> set (py_range (start + step) stop step)"
    with "1.IH" c have "(x - (start + step)) mod step = 0" by simp
    moreover have "x - start = (x - (start + step)) + step" by simp
    ultimately show ?thesis by (metis mod_add_self2)
  qed
qed

lemma encode_range_even:
  assumes "x \<in> set (py_range 2 flat_bit_count_sweep_ceiling base_loop_stride)"
  shows "2 \<le> x" and "even x"
proof -
  show "2 \<le> x" using py_range_bounds [OF assms] by simp
  have "(x - 2) mod 2 = 0"
    using py_range_step [OF assms] by (simp add: base_loop_stride_def)
  then show "even x" by presburger
qed

lemma ceil_log2_even_pred:
  assumes "4 \<le> x" and "even x"
  shows "ceil_log2 x = ceil_log2 (x - 1)"
proof -
  have "ceil_log2 x = min_bit_count_unsigned (x - 1)"
    using assms(1) by (simp add: min_bit_count_unsigned_pred)
  also have "\<dots> = 1 + min_bit_count_unsigned ((x - 1) div 2)"
    using assms(1) by (subst min_bit_count_unsigned.simps) simp
  also have "(x - 1) div 2 = (x - 1 - 1) div 2"
    using assms(2) by presburger
  also have "1 + min_bit_count_unsigned ((x - 1 - 1) div 2) = min_bit_count_unsigned (x - 1 - 1)"
    using assms(1) by (subst (2) min_bit_count_unsigned.simps) simp
  also have "\<dots> = ceil_log2 (x - 1)"
    using assms(1) by (intro min_bit_count_unsigned_pred) simp
  finally show ?thesis .
qed

lemma ceil_log2_values:
  "ceil_log2 1 = 0" "ceil_log2 2 = 1" "ceil_log2 7 = 3" "ceil_log2 8 = 3" "ceil_log2 64 = 6"
proof -
  show "ceil_log2 1 = 0" by (simp add: ceil_log2_def)
  have v: "min_bit_count_unsigned 1 = 1" "min_bit_count_unsigned 6 = 3"
    "min_bit_count_unsigned 7 = 3" "min_bit_count_unsigned 63 = 6"
    by code_simp+
  show "ceil_log2 2 = 1" using min_bit_count_unsigned_pred [of 2] v by simp
  show "ceil_log2 7 = 3" using min_bit_count_unsigned_pred [of 7] v by simp
  show "ceil_log2 8 = 3" using min_bit_count_unsigned_pred [of 8] v by simp
  show "ceil_log2 64 = 6" using min_bit_count_unsigned_pred [of 64] v by simp
qed

lemma encode_range: "py_range 2 flat_bit_count_sweep_ceiling base_loop_stride =
  [2, 4, 6, 8, 10, 12, 14, 16, 18, 20, 22, 24, 26, 28, 30, 32, 34, 36, 38, 40, 42, 44, 46, 48,
   50, 52, 54, 56, 58, 60, 62, 64]"
  by code_simp

text \<open>
  C6, as the program has it: every call of the encode sweep has the one operand
  \<open>input_bits\<close>, for the even widths from 2 to 64, and the result width
  \<open>min_bit_count_unsigned(input_bits - 1)\<close>, which is \<open>ceil(log2(input_bits))\<close>. For every
  width of the sweep but 2 this is also \<open>ceil(log2(input_bits - 1))\<close>; at width 2 it is
  1. At width 8 it is 3.
\<close>

theorem encode_result_width:
  "map (\<lambda>p. (num_operand_bits (snd p), num_node_bits (snd p))) (encode_op_points op kop)
     = map (\<lambda>input_bits. ([input_bits], ceil_log2 input_bits))
           (py_range 2 flat_bit_count_sweep_ceiling base_loop_stride)
   \<and> (\<forall>input_bits \<in> set (py_range 2 flat_bit_count_sweep_ceiling base_loop_stride).
         input_bits \<noteq> 2 \<longrightarrow> ceil_log2 input_bits = ceil_log2 (input_bits - 1))
   \<and> 2 \<in> set (py_range 2 flat_bit_count_sweep_ceiling base_loop_stride)
   \<and> ceil_log2 2 = 1
   \<and> 8 \<in> set (py_range 2 flat_bit_count_sweep_ceiling base_loop_stride)
   \<and> ceil_log2 8 = 3"
proof (intro conjI ballI impI)
  have "min_bit_count_unsigned (x - 1) = ceil_log2 x"
    if "x \<in> set (py_range 2 flat_bit_count_sweep_ceiling base_loop_stride)" for x
    using encode_range_even(1) [OF that] by (simp add: min_bit_count_unsigned_pred)
  then show "map (\<lambda>p. (num_operand_bits (snd p), num_node_bits (snd p))) (encode_op_points op kop)
     = map (\<lambda>input_bits. ([input_bits], ceil_log2 input_bits))
           (py_range 2 flat_bit_count_sweep_ceiling base_loop_stride)"
    by (simp add: encode_op_points_def call_args_def Let_def)
next
  fix input_bits
  assume a: "input_bits \<in> set (py_range 2 flat_bit_count_sweep_ceiling base_loop_stride)"
    and b: "input_bits \<noteq> 2"
  from encode_range_even [OF a] b have "4 \<le> input_bits" "even input_bits"
    by presburger+
  then show "ceil_log2 input_bits = ceil_log2 (input_bits - 1)"
    by (rule ceil_log2_even_pred)
next
  show "2 \<in> set (py_range 2 flat_bit_count_sweep_ceiling base_loop_stride)"
    unfolding encode_range by simp
  show "8 \<in> set (py_range 2 flat_bit_count_sweep_ceiling base_loop_stride)"
    unfolding encode_range by simp
  show "ceil_log2 2 = 1" by (rule ceil_log2_values)
  show "ceil_log2 8 = 3" by (rule ceil_log2_values)
qed

theorem encode_result_width_witness:
  "8 \<in> set (py_range 2 flat_bit_count_sweep_ceiling base_loop_stride) \<and> (8::int) \<noteq> 2
   \<and> ceil_log2 8 = ceil_log2 (8 - 1)"
proof -
  from encode_result_width [of "''encode''" "''kEncode''"] have
    m: "8 \<in> set (py_range 2 flat_bit_count_sweep_ceiling base_loop_stride)" and
    a: "\<forall>input_bits \<in> set (py_range 2 flat_bit_count_sweep_ceiling base_loop_stride).
          input_bits \<noteq> 2 \<longrightarrow> ceil_log2 input_bits = ceil_log2 (input_bits - 1)"
    by blast+
  from bspec [OF a m] m show ?thesis by simp
qed

text \<open>
  C6 as stated fails at the first point of the sweep: for \<open>input_bits = 2\<close> the result
  width is 1, and \<open>ceil(log2(2 - 1))\<close> is 0.
\<close>

theorem encode_result_width_counterexample:
  "num_operand_bits (snd (hd (encode_op_points ''encode'' ''kEncode''))) = [2]
   \<and> num_node_bits (snd (hd (encode_op_points ''encode'' ''kEncode''))) = 1
   \<and> ceil_log2 (2 - 1) = 0
   \<and> num_node_bits (snd (hd (encode_op_points ''encode'' ''kEncode''))) \<noteq> ceil_log2 (2 - 1)"
proof -
  have "snd (hd (encode_op_points ''encode'' ''kEncode'')) = call_args ''encode'' ''kEncode'' 1 [2]"
    unfolding encode_op_points_def encode_range
    by (simp add: Let_def min_bit_count_unsigned_values)
  then show ?thesis
    by (simp add: call_args_def ceil_log2_values)
qed

section \<open>The dynamic bit slice sweep\<close>

lemma dynamic_bit_slice_range:
  "py_range 2 (min_bit_count_unsigned (flat_bit_count_sweep_ceiling - 1)) (base_loop_stride ^ 2)
     = [2, 6]"
  by code_simp

lemma dynamic_bit_slice_nodes_2: "py_range 1 (2 ^ nat 2) (base_loop_stride ^ 2) = [1]"
  by code_simp

lemma dynamic_bit_slice_nodes_6:
  "py_range 1 (2 ^ nat 6) (base_loop_stride ^ 2)
     = [1, 5, 9, 13, 17, 21, 25, 29, 33, 37, 41, 45, 49, 53, 57, 61]"
  by code_simp

text \<open>
  C7, as the program has it: the outer loop of the dynamic bit slice sweep runs
  \<open>start_bits\<close> from 2 below \<open>min_bit_count_unsigned(64) = 7\<close> in steps of 4, so over 2
  and 6. For each, \<open>input_bits\<close> is \<open>2 ^ start_bits\<close> and \<open>node_bits\<close> runs from 1 below
  \<open>input_bits\<close> in steps of 4. Each call has the two operands \<open>input_bits\<close> and
  \<open>start_bits\<close>, the result width \<open>node_bits\<close> and the attribute \<open>width\<close> with value
  \<open>node_bits\<close>, and its datapoint has that result width and those two operands.
\<close>

theorem dynamic_bit_slice_sweep:
  "min_bit_count_unsigned (flat_bit_count_sweep_ceiling - 1) = 7
   \<and> py_range 2 (min_bit_count_unsigned (flat_bit_count_sweep_ceiling - 1)) (base_loop_stride ^ 2)
       = [2, 6]
   \<and> base_loop_stride ^ 2 = 4
   \<and> map snd (dynamic_bit_slice_op_points op kop) =
       [dynamic_bit_slice_call op kop start_bits (2 ^ nat start_bits) node_bits.
          start_bits \<leftarrow> [2, 6],
          node_bits \<leftarrow> py_range 1 (2 ^ nat start_bits) (base_loop_stride ^ 2)]
   \<and> num_operand_bits (dynamic_bit_slice_call op kop start_bits input_bits node_bits)
       = [input_bits, start_bits]
   \<and> num_node_bits (dynamic_bit_slice_call op kop start_bits input_bits node_bits) = node_bits
   \<and> attributes (dynamic_bit_slice_call op kop start_bits input_bits node_bits)
       = [(''width'', str node_bits)]
   \<and> operation_of (dynamic_bit_slice_call op kop start_bits input_bits node_bits)
       = \<lparr>operation_op = kop, operation_bit_count = node_bits,
          operation_operands = [input_bits, start_bits]\<rparr>"
proof (intro conjI)
  show "min_bit_count_unsigned (flat_bit_count_sweep_ceiling - 1) = 7"
    by (simp add: flat_bit_count_sweep_ceiling_def min_bit_count_unsigned_values)
  show "py_range 2 (min_bit_count_unsigned (flat_bit_count_sweep_ceiling - 1)) (base_loop_stride ^ 2)
       = [2, 6]"
    by (rule dynamic_bit_slice_range)
  show "base_loop_stride ^ 2 = 4"
    by (simp add: base_loop_stride_def)
  show "map snd (dynamic_bit_slice_op_points op kop) =
       [dynamic_bit_slice_call op kop start_bits (2 ^ nat start_bits) node_bits.
          start_bits \<leftarrow> [2, 6],
          node_bits \<leftarrow> py_range 1 (2 ^ nat start_bits) (base_loop_stride ^ 2)]"
    unfolding dynamic_bit_slice_op_points_def dynamic_bit_slice_range
    by (simp add: comp_def)
qed (simp_all add: dynamic_bit_slice_call_def call_args_def operation_of_def)

text \<open>
  C7 as stated fails: the range from 2 below \<open>ceil(log2(64)) = 6\<close> in steps of 4 holds 2
  only, and the sweep also makes the calls for \<open>start_bits = 6\<close>, with a data operand of
  64 bits.
\<close>

theorem dynamic_bit_slice_sweep_counterexample:
  "dynamic_bit_slice_call ''dynamic_bit_slice'' ''kDynamicBitSlice'' 6 64 1
     \<in> set (map snd (dynamic_bit_slice_op_points ''dynamic_bit_slice'' ''kDynamicBitSlice''))
   \<and> num_operand_bits (dynamic_bit_slice_call ''dynamic_bit_slice'' ''kDynamicBitSlice'' 6 64 1)
       = [64, 6]
   \<and> py_range 2 (ceil_log2 (flat_bit_count_sweep_ceiling - 1)) (base_loop_stride ^ 2) = [2]
   \<and> 6 \<notin> set (py_range 2 (ceil_log2 (flat_bit_count_sweep_ceiling - 1)) (base_loop_stride ^ 2))"
proof -
  have c: "ceil_log2 (flat_bit_count_sweep_ceiling - 1) = 6"
    by (simp add: flat_bit_count_sweep_ceiling_def ceil_log2_values)
  have r: "py_range 2 6 (base_loop_stride ^ 2) = [2]"
    by code_simp
  have "map snd (dynamic_bit_slice_op_points ''dynamic_bit_slice'' ''kDynamicBitSlice'') =
       [dynamic_bit_slice_call ''dynamic_bit_slice'' ''kDynamicBitSlice'' start_bits
          (2 ^ nat start_bits) node_bits.
          start_bits \<leftarrow> [2, 6],
          node_bits \<leftarrow> py_range 1 (2 ^ nat start_bits) (base_loop_stride ^ 2)]"
    unfolding dynamic_bit_slice_op_points_def dynamic_bit_slice_range
    by (simp add: comp_def)
  then have "dynamic_bit_slice_call ''dynamic_bit_slice'' ''kDynamicBitSlice'' 6 64 1
     \<in> set (map snd (dynamic_bit_slice_op_points ''dynamic_bit_slice'' ''kDynamicBitSlice''))"
    using dynamic_bit_slice_nodes_6 by simp
  moreover have "num_operand_bits
      (dynamic_bit_slice_call ''dynamic_bit_slice'' ''kDynamicBitSlice'' 6 64 1) = [64, 6]"
    by (simp add: dynamic_bit_slice_call_def call_args_def)
  ultimately show ?thesis
    unfolding c r by simp
qed

section \<open>The case counts of the select sweeps\<close>

lemma select_range:
  "py_range 2 operand_count_sweep_ceiling base_loop_stride = [2, 4, 6, 8, 10, 12, 14]"
  by code_simp

lemma select_branch_values:
  "min_bit_count_unsigned 1 = 1" "min_bit_count_unsigned 3 = 2" "min_bit_count_unsigned 5 = 3"
  "min_bit_count_unsigned 7 = 3" "min_bit_count_unsigned 9 = 4" "min_bit_count_unsigned 11 = 4"
  "min_bit_count_unsigned 13 = 4"
  by code_simp+

text \<open>
  C10: the select and the one-hot select sweep take \<open>num_cases\<close> from 2, 4, 6, 8, 10, 12,
  14 and nothing else, so never an odd count such as 5. In the select sweep the branch
  without a default operand is taken for 2, 4 and 8 cases, and the branch with the
  default operand for 6, 10, 12 and 14 cases.
\<close>

theorem select_case_counts:
  "py_range 2 operand_count_sweep_ceiling base_loop_stride = [2, 4, 6, 8, 10, 12, 14]
   \<and> map snd (select_op_points op kop) =
       [select_call op kop num_cases bit_count.
          num_cases \<leftarrow> [2, 4, 6, 8, 10, 12, 14],
          bit_count \<leftarrow> py_range 1 flat_bit_count_sweep_ceiling base_loop_stride]
   \<and> map snd (one_hot_select_op_points op kop) =
       [one_hot_select_call op kop num_cases bit_count.
          num_cases \<leftarrow> [2, 4, 6, 8, 10, 12, 14],
          bit_count \<leftarrow> py_range 1 flat_bit_count_sweep_ceiling base_loop_stride]
   \<and> [num_cases \<leftarrow> py_range 2 operand_count_sweep_ceiling base_loop_stride.
         2 ^ nat (min_bit_count_unsigned (num_cases - 1)) = num_cases] = [2, 4, 8]
   \<and> [num_cases \<leftarrow> py_range 2 operand_count_sweep_ceiling base_loop_stride.
         2 ^ nat (min_bit_count_unsigned (num_cases - 1)) \<noteq> num_cases] = [6, 10, 12, 14]
   \<and> map (\<lambda>num_cases. operand_attributes (select_call op kop num_cases bit_count))
         [2, 4, 6, 8, 10, 12, 14]
       = [[], [], [(''default'', 7)], [], [(''default'', 11)], [(''default'', 13)],
          [(''default'', 15)]]
   \<and> map (\<lambda>num_cases. length (num_operand_bits (select_call op kop num_cases bit_count)))
         [2, 4, 6, 8, 10, 12, 14]
       = [3, 5, 8, 9, 12, 14, 16]
   \<and> 5 \<notin> set (py_range 2 operand_count_sweep_ceiling base_loop_stride)
   \<and> [num_cases \<leftarrow> py_range 2 operand_count_sweep_ceiling base_loop_stride. odd num_cases] = []"
proof (intro conjI)
  show "py_range 2 operand_count_sweep_ceiling base_loop_stride = [2, 4, 6, 8, 10, 12, 14]"
    by (rule select_range)
  show "map snd (select_op_points op kop) =
       [select_call op kop num_cases bit_count.
          num_cases \<leftarrow> [2, 4, 6, 8, 10, 12, 14],
          bit_count \<leftarrow> py_range 1 flat_bit_count_sweep_ceiling base_loop_stride]"
    unfolding select_op_points_def select_range by (simp add: comp_def)
  show "map snd (one_hot_select_op_points op kop) =
       [one_hot_select_call op kop num_cases bit_count.
          num_cases \<leftarrow> [2, 4, 6, 8, 10, 12, 14],
          bit_count \<leftarrow> py_range 1 flat_bit_count_sweep_ceiling base_loop_stride]"
    unfolding one_hot_select_op_points_def select_range by (simp add: comp_def)
  show "[num_cases \<leftarrow> py_range 2 operand_count_sweep_ceiling base_loop_stride.
         2 ^ nat (min_bit_count_unsigned (num_cases - 1)) = num_cases] = [2, 4, 8]"
    unfolding select_range by (simp add: select_branch_values)
  show "[num_cases \<leftarrow> py_range 2 operand_count_sweep_ceiling base_loop_stride.
         2 ^ nat (min_bit_count_unsigned (num_cases - 1)) \<noteq> num_cases] = [6, 10, 12, 14]"
    unfolding select_range by (simp add: select_branch_values)
  show "map (\<lambda>num_cases. operand_attributes (select_call op kop num_cases bit_count))
         [2, 4, 6, 8, 10, 12, 14]
       = [[], [], [(''default'', 7)], [], [(''default'', 11)], [(''default'', 13)],
          [(''default'', 15)]]"
    by (simp add: select_call_def call_args_def Let_def select_branch_values)
  show "map (\<lambda>num_cases. length (num_operand_bits (select_call op kop num_cases bit_count)))
         [2, 4, 6, 8, 10, 12, 14]
       = [3, 5, 8, 9, 12, 14, 16]"
    by (simp add: select_call_def call_args_def Let_def select_branch_values)
  show "5 \<notin> set (py_range 2 operand_count_sweep_ceiling base_loop_stride)"
    unfolding select_range by simp
  show "[num_cases \<leftarrow> py_range 2 operand_count_sweep_ceiling base_loop_stride. odd num_cases] = []"
    unfolding select_range by simp
qed

section \<open>The operands that attributes name\<close>

lemma valid_call_args [simp]: "valid_descriptor (call_args op kop node_bits operand_bits)"
  by (simp add: valid_descriptor_def call_args_def)

lemma valid_attributes_update [simp]:
  "valid_descriptor (d\<lparr>attributes := a\<rparr>) = valid_descriptor d"
  by (simp add: valid_descriptor_def)

lemma valid_select_call: "0 \<le> num_cases \<Longrightarrow> valid_descriptor (select_call op kop num_cases bit_count)"
  by (simp add: valid_descriptor_def select_call_def call_args_def Let_def)

lemma valid_one_hot_select_call:
  "0 \<le> num_cases \<Longrightarrow> valid_descriptor (one_hot_select_call op kop num_cases bit_count)"
  by (simp add: valid_descriptor_def one_hot_select_call_def call_args_def Let_def)

lemma literal_operand_call_args [simp]:
  "literal_operand (call_args op kop node_bits operand_bits) = None"
  by (simp add: call_args_def)

lemma select_range_nonneg:
  "n \<in> set (py_range 2 operand_count_sweep_ceiling base_loop_stride) \<Longrightarrow> 0 \<le> n"
  by (drule py_range_bounds) simp

lemma strategy_points_valid:
  assumes "p \<in> set (strategy_points s op kop)"
  shows "valid_descriptor (snd p) \<and> literal_operand (snd p) = None"
proof (cases s)
  case Select_op
  with assms obtain n b where
    "n \<in> set (py_range 2 operand_count_sweep_ceiling base_loop_stride)"
    "snd p = select_call op kop n b"
    by (auto simp: select_op_points_def)
  then show ?thesis
    using select_range_nonneg [of n]
    by (simp add: valid_select_call) (simp add: select_call_def Let_def)
next
  case One_hot_select_op
  with assms obtain n b where
    "n \<in> set (py_range 2 operand_count_sweep_ceiling base_loop_stride)"
    "snd p = one_hot_select_call op kop n b"
    by (auto simp: one_hot_select_op_points_def)
  then show ?thesis
    using select_range_nonneg [of n]
    by (simp add: valid_one_hot_select_call) (simp add: one_hot_select_call_def Let_def)
qed (use assms in \<open>auto simp: nary_op_points_def nary_op_and_add_points_def
      single_bit_result_op_points_def encode_op_points_def decode_op_points_def
      dynamic_bit_slice_op_points_def dynamic_bit_slice_call_def one_hot_op_points_def
      sign_ext_op_points_def mul_op_points_def Let_def\<close>)

text \<open>
  C8: in every call that a sweep strategy makes, each operand attribute names an operand
  of the call, each operand span lies within the operands of the call, and no literal
  operand is given at all. In the select sweep with a default, the operand list has
  \<open>num_cases + 2\<close> entries, the span \<open>cases\<close> covers the indices from 1 to \<open>num_cases\<close>
  and \<open>default\<close> names the index \<open>num_cases + 1\<close>, all within the list; without a
  default the list has \<open>num_cases + 1\<close> entries and the span is within it as well.
\<close>

theorem descriptors_valid:
  "(\<forall>p\<in>set (strategy_points s op kop).
       valid_descriptor (snd p) \<and> literal_operand (snd p) = None)
   \<and> (\<forall>p\<in>set (nary_op_points op kop num_inputs) \<union> set (single_bit_result_op_points op kop num_inputs).
         valid_descriptor (snd p) \<and> literal_operand (snd p) = None)
   \<and> (0 \<le> num_cases \<and> 2 ^ nat (min_bit_count_unsigned (num_cases - 1)) \<noteq> num_cases \<longrightarrow>
        (let d = select_call op kop num_cases bit_count
         in int (length (num_operand_bits d)) = num_cases + 2
            \<and> operand_attributes d = [(''default'', num_cases + 1)]
            \<and> operand_span_attributes d = [(''cases'', 1, num_cases)]
            \<and> num_cases + 1 < int (length (num_operand_bits d))
            \<and> 1 + num_cases \<le> int (length (num_operand_bits d))
            \<and> valid_descriptor d))
   \<and> (0 \<le> num_cases \<and> 2 ^ nat (min_bit_count_unsigned (num_cases - 1)) = num_cases \<longrightarrow>
        (let d = select_call op kop num_cases bit_count
         in int (length (num_operand_bits d)) = num_cases + 1
            \<and> operand_attributes d = []
            \<and> operand_span_attributes d = [(''cases'', 1, num_cases)]
            \<and> valid_descriptor d))"
proof -
  have A: "\<forall>p\<in>set (strategy_points s op kop).
       valid_descriptor (snd p) \<and> literal_operand (snd p) = None"
    using strategy_points_valid by blast
  have B: "\<forall>p\<in>set (nary_op_points op kop num_inputs) \<union> set (single_bit_result_op_points op kop num_inputs).
         valid_descriptor (snd p) \<and> literal_operand (snd p) = None"
    by (auto simp: nary_op_points_def single_bit_result_op_points_def)
  have C: "0 \<le> num_cases \<and> 2 ^ nat (min_bit_count_unsigned (num_cases - 1)) \<noteq> num_cases \<longrightarrow>
        (let d = select_call op kop num_cases bit_count
         in int (length (num_operand_bits d)) = num_cases + 2
            \<and> operand_attributes d = [(''default'', num_cases + 1)]
            \<and> operand_span_attributes d = [(''cases'', 1, num_cases)]
            \<and> num_cases + 1 < int (length (num_operand_bits d))
            \<and> 1 + num_cases \<le> int (length (num_operand_bits d))
            \<and> valid_descriptor d)"
  proof
    assume a: "0 \<le> num_cases \<and> 2 ^ nat (min_bit_count_unsigned (num_cases - 1)) \<noteq> num_cases"
    then have "valid_descriptor (select_call op kop num_cases bit_count)"
      by (simp add: valid_select_call)
    moreover from a have
      "int (length (num_operand_bits (select_call op kop num_cases bit_count))) = num_cases + 2"
      "operand_attributes (select_call op kop num_cases bit_count) = [(''default'', num_cases + 1)]"
      "operand_span_attributes (select_call op kop num_cases bit_count) = [(''cases'', 1, num_cases)]"
      by (simp_all add: select_call_def call_args_def Let_def)
    ultimately show "let d = select_call op kop num_cases bit_count
         in int (length (num_operand_bits d)) = num_cases + 2
            \<and> operand_attributes d = [(''default'', num_cases + 1)]
            \<and> operand_span_attributes d = [(''cases'', 1, num_cases)]
            \<and> num_cases + 1 < int (length (num_operand_bits d))
            \<and> 1 + num_cases \<le> int (length (num_operand_bits d))
            \<and> valid_descriptor d"
      unfolding Let_def by simp
  qed
  have D: "0 \<le> num_cases \<and> 2 ^ nat (min_bit_count_unsigned (num_cases - 1)) = num_cases \<longrightarrow>
        (let d = select_call op kop num_cases bit_count
         in int (length (num_operand_bits d)) = num_cases + 1
            \<and> operand_attributes d = []
            \<and> operand_span_attributes d = [(''cases'', 1, num_cases)]
            \<and> valid_descriptor d)"
  proof
    assume a: "0 \<le> num_cases \<and> 2 ^ nat (min_bit_count_unsigned (num_cases - 1)) = num_cases"
    then have "valid_descriptor (select_call op kop num_cases bit_count)"
      by (simp add: valid_select_call)
    moreover from a have
      "int (length (num_operand_bits (select_call op kop num_cases bit_count))) = num_cases + 1"
      "operand_attributes (select_call op kop num_cases bit_count) = []"
      "operand_span_attributes (select_call op kop num_cases bit_count) = [(''cases'', 1, num_cases)]"
      by (simp_all add: select_call_def call_args_def Let_def)
    ultimately show "let d = select_call op kop num_cases bit_count
         in int (length (num_operand_bits d)) = num_cases + 1
            \<and> operand_attributes d = []
            \<and> operand_span_attributes d = [(''cases'', 1, num_cases)]
            \<and> valid_descriptor d"
      unfolding Let_def by simp
  qed
  show ?thesis
    by (intro conjI) (rule A, rule B, rule C, rule D)
qed


theorem descriptors_valid_witness:
  "(''# select_op: sel, 1 bits, 6 cases'', select_call ''sel'' ''kSel'' 6 1)
     \<in> set (strategy_points Select_op ''sel'' ''kSel'')
   \<and> select_call ''sel'' ''kSel'' 6 1 =
       \<lparr>desc_op = ''sel'', desc_kop = ''kSel'', num_node_bits = 1,
        num_operand_bits = [3, 1, 1, 1, 1, 1, 1, 1], attributes = [],
        operand_attributes = [(''default'', 7)], operand_span_attributes = [(''cases'', 1, 6)],
        literal_operand = None\<rparr>
   \<and> valid_descriptor (select_call ''sel'' ''kSel'' 6 1)
   \<and> (0::int) \<le> 6 \<and> 2 ^ nat (min_bit_count_unsigned (6 - 1)) \<noteq> (6::int)
   \<and> int (length (num_operand_bits (select_call ''sel'' ''kSel'' 6 1))) = 6 + 2
   \<and> (0::int) \<le> 4 \<and> 2 ^ nat (min_bit_count_unsigned (4 - 1)) = (4::int)
   \<and> int (length (num_operand_bits (select_call ''sel'' ''kSel'' 4 1))) = 4 + 1"
proof -
  let ?p = "(''# select_op: sel, 1 bits, 6 cases'', select_call ''sel'' ''kSel'' 6 1)"
  have n: "select_op_points ''sel'' ''kSel'' ! 64 = ?p"
    by code_simp
  have l: "64 < length (select_op_points ''sel'' ''kSel'')"
    by code_simp
  have "select_op_points ''sel'' ''kSel'' ! 64 \<in> set (select_op_points ''sel'' ''kSel'')"
    using l by (rule nth_mem)
  then have m: "?p \<in> set (strategy_points Select_op ''sel'' ''kSel'')"
    unfolding n by simp
  have v: "select_call ''sel'' ''kSel'' 6 1 =
       \<lparr>desc_op = ''sel'', desc_kop = ''kSel'', num_node_bits = 1,
        num_operand_bits = [3, 1, 1, 1, 1, 1, 1, 1], attributes = [],
        operand_attributes = [(''default'', 7)], operand_span_attributes = [(''cases'', 1, 6)],
        literal_operand = None\<rparr>"
    by code_simp
  have b6: "(0::int) \<le> 6 \<and> 2 ^ nat (min_bit_count_unsigned (6 - 1)) \<noteq> (6::int)"
    by (simp add: select_branch_values)
  have b4: "(0::int) \<le> 4 \<and> 2 ^ nat (min_bit_count_unsigned (4 - 1)) = (4::int)"
    by (simp add: select_branch_values)
  note t6 = descriptors_valid [of Select_op "''sel''" "''kSel''" 0 6 1]
  note t4 = descriptors_valid [of Select_op "''sel''" "''kSel''" 0 4 1]
  from t6 have "\<forall>p\<in>set (strategy_points Select_op ''sel'' ''kSel'').
       valid_descriptor (snd p) \<and> literal_operand (snd p) = None" by (rule conjunct1)
  from bspec [OF this m] have 1: "valid_descriptor (select_call ''sel'' ''kSel'' 6 1)" by simp
  from t6 have "0 \<le> (6::int) \<and> 2 ^ nat (min_bit_count_unsigned (6 - 1)) \<noteq> (6::int) \<longrightarrow>
        (let d = select_call ''sel'' ''kSel'' 6 1
         in int (length (num_operand_bits d)) = 6 + 2
            \<and> operand_attributes d = [(''default'', 6 + 1)]
            \<and> operand_span_attributes d = [(''cases'', 1, 6)]
            \<and> 6 + 1 < int (length (num_operand_bits d))
            \<and> 1 + 6 \<le> int (length (num_operand_bits d))
            \<and> valid_descriptor d)"
    by (elim conjE)
  from mp [OF this b6] have 2:
    "int (length (num_operand_bits (select_call ''sel'' ''kSel'' 6 1))) = 6 + 2"
    unfolding Let_def by (rule conjunct1)
  from t4 have "0 \<le> (4::int) \<and> 2 ^ nat (min_bit_count_unsigned (4 - 1)) = (4::int) \<longrightarrow>
        (let d = select_call ''sel'' ''kSel'' 4 1
         in int (length (num_operand_bits d)) = 4 + 1
            \<and> operand_attributes d = []
            \<and> operand_span_attributes d = [(''cases'', 1, 4)]
            \<and> valid_descriptor d)"
    by (elim conjE)
  from mp [OF this b4] have 3:
    "int (length (num_operand_bits (select_call ''sel'' ''kSel'' 4 1))) = 4 + 1"
    unfolding Let_def by (rule conjunct1)
  show ?thesis
    by (intro conjI) (rule m, rule v, rule 1, rule b6 [THEN conjunct1], rule b6 [THEN conjunct2],
        rule 2, rule b4 [THEN conjunct1], rule b4 [THEN conjunct2], rule 3)
qed

section \<open>Running a sweep twice\<close>

lemma build_data_point_shift:
  assumes "deterministic e"
  shows "build_data_point e d w =
           (case build_data_point e d fresh_world of
              (r, v) \<Rightarrow> (r, w\<lparr>sent := sent w @ sent v\<rparr>))"
proof -
  have "Compile e (sent w) request = Compile e [] request" for request
    using assms unfolding deterministic_def by blast
  then show ?thesis
    by (simp add: build_data_point_eq fresh_world_def split: sum.splits)
qed

lemma run_points_shift:
  assumes "deterministic e"
  shows "run_points e ps w =
           (case run_points e ps fresh_world of
              (r, v) \<Rightarrow> (r, w\<lparr>stdout := stdout w @ stdout v, sent := sent w @ sent v\<rparr>))"
proof (induction ps arbitrary: w)
  case Nil
  show ?case by (simp add: fresh_world_def)
next
  case (Cons p ps)
  obtain r0 v0 where b0: "build_data_point e (snd p) fresh_world = (r0, v0)"
    by (cases "build_data_point e (snd p) fresh_world")
  have s0: "stdout v0 = []"
    using build_data_point_stdout [OF b0] by (simp add: fresh_world_def)
  have bw: "build_data_point e (snd p) (print_line (fst p) u)
              = (r0, (print_line (fst p) u)\<lparr>sent := sent u @ sent v0\<rparr>)" for u
    by (subst build_data_point_shift [OF assms]) (simp add: b0 print_line_def)
  show ?case
  proof (cases r0)
    case (Inl err)
    show ?thesis
      unfolding run_points_Cons bw Inl
      by (simp add: print_line_def fresh_world_def)
  next
    case (Inr dp)
    obtain r1 v1 where r1: "run_points e ps fresh_world = (r1, v1)"
      by (cases "run_points e ps fresh_world")
    have a: "run_points e ps (w\<lparr>stdout := stdout w @ [Line (fst p)], sent := sent w @ sent v0\<rparr>)
               = (r1, w\<lparr>stdout := stdout w @ Line (fst p) # stdout v1,
                         sent := sent w @ sent v0 @ sent v1\<rparr>)"
      by (subst Cons.IH) (simp add: r1)
    have b: "run_points e ps \<lparr>stdout = [Line (fst p)], sent = sent v0\<rparr>
               = (r1, \<lparr>stdout = Line (fst p) # stdout v1, sent = sent v0 @ sent v1\<rparr>)"
      by (subst Cons.IH) (simp add: r1)
    show ?thesis
      unfolding run_points_Cons bw Inr
      by (simp add: print_line_def fresh_world_def a b split: sum.splits)
  qed
qed


lemma run_strategy_eq:
  "run_strategy e s op kop model w =
     add_data_points (add_op_model kop (strategy_factors s) model)
       (run_points e (strategy_points s op kop) w)"
  by (cases s)
     (simp_all add: run_bin_op_and_add_def run_unary_op_and_add_def run_nary_op_and_add_def
        run_reduction_op_and_add_def run_comparison_op_and_add_def
        run_single_bit_result_op_and_add_def run_select_op_and_add_def
        run_one_hot_select_op_and_add_def run_encode_op_and_add_def run_decode_op_and_add_def
        run_dynamic_bit_slice_op_and_add_def run_one_hot_op_and_add_def
        run_sign_ext_op_and_add_def run_mul_op_and_add_def run_nary_op_def)

lemma run_strategy_from_fresh:
  assumes "deterministic e"
    and "run_points e (strategy_points s op kop) fresh_world = (r0, v0)"
    and "run_strategy e s op kop model w = (r, w')"
  shows "drop (length (sent w)) (sent w') = sent v0"
    and "drop (length (stdout w)) (stdout w') = stdout v0"
    and "r = map_sum id (\<lambda>dps. (add_op_model kop (strategy_factors s) model)
                                 \<lparr>data_points := data_points model @ dps\<rparr>) r0"
proof -
  have "run_points e (strategy_points s op kop) w =
          (r0, w\<lparr>stdout := stdout w @ stdout v0, sent := sent w @ sent v0\<rparr>)"
    by (subst run_points_shift [OF assms(1)]) (simp add: assms(2))
  with assms(3) have
    *: "(r, w') = add_data_points (add_op_model kop (strategy_factors s) model)
                    (r0, w\<lparr>stdout := stdout w @ stdout v0, sent := sent w @ sent v0\<rparr>)"
    by (simp add: run_strategy_eq)
  then have w': "w' = w\<lparr>stdout := stdout w @ stdout v0, sent := sent w @ sent v0\<rparr>"
    by (cases r0) (simp_all add: add_data_points_def)
  show "drop (length (sent w)) (sent w') = sent v0"
    by (simp add: w')
  show "drop (length (stdout w)) (stdout w') = stdout v0"
    by (simp add: w')
  from * show "r = map_sum id (\<lambda>dps. (add_op_model kop (strategy_factors s) model)
                                 \<lparr>data_points := data_points model @ dps\<rparr>) r0"
    by (cases r0) (simp_all add: add_data_points_def add_op_model_def)
qed

text \<open>
  C9: against a server whose answer depends on the request alone, two runs of the same
  strategy for the same operation, from any two models and any two histories of earlier
  requests and output, send the same requests in the same order, print the same lines,
  and end alike: with the same exception, or with the same datapoints added. The calls of
  a completed run are the calls of the strategy's loop nest, in its order, which depend
  on the strategy, the operation names and the module's constants only.
\<close>

theorem sweeps_repeatable:
  assumes "deterministic e"
    and "run_strategy e s op kop model1 w1 = (r1, w1')"
    and "run_strategy e s op kop model2 w2 = (r2, w2')"
  shows "drop (length (sent w1)) (sent w1') = drop (length (sent w2)) (sent w2')
       \<and> drop (length (stdout w1)) (stdout w1') = drop (length (stdout w2)) (stdout w2')
       \<and> (case r1 of
            Inl err \<Rightarrow> r2 = Inl err
          | Inr m1 \<Rightarrow>
              (\<exists>m2. r2 = Inr m2
                 \<and> drop (length (data_points model1)) (data_points m1)
                     = drop (length (data_points model2)) (data_points m2)
                 \<and> map dp_operation (drop (length (data_points model1)) (data_points m1))
                     = map (operation_of \<circ> snd) (strategy_points s op kop)
                 \<and> map Inr (drop (length (sent w1)) (sent w1'))
                     = map (circuit_request e \<circ> snd) (strategy_points s op kop)
                 \<and> drop (length (stdout w1)) (stdout w1')
                     = map (Line \<circ> fst) (strategy_points s op kop)))"
proof -
  obtain r0 v0 where r0: "run_points e (strategy_points s op kop) fresh_world = (r0, v0)"
    by (cases "run_points e (strategy_points s op kop) fresh_world")
  note f1 = run_strategy_from_fresh [OF assms(1) r0 assms(2)]
  note f2 = run_strategy_from_fresh [OF assms(1) r0 assms(3)]
  have s: "drop (length (sent w1)) (sent w1') = drop (length (sent w2)) (sent w2')"
    using f1(1) f2(1) by simp
  have t: "drop (length (stdout w1)) (stdout w1') = drop (length (stdout w2)) (stdout w2')"
    using f1(2) f2(2) by simp
  have c: "case r1 of
            Inl err \<Rightarrow> r2 = Inl err
          | Inr m1 \<Rightarrow>
              (\<exists>m2. r2 = Inr m2
                 \<and> drop (length (data_points model1)) (data_points m1)
                     = drop (length (data_points model2)) (data_points m2)
                 \<and> map dp_operation (drop (length (data_points model1)) (data_points m1))
                     = map (operation_of \<circ> snd) (strategy_points s op kop)
                 \<and> map Inr (drop (length (sent w1)) (sent w1'))
                     = map (circuit_request e \<circ> snd) (strategy_points s op kop)
                 \<and> drop (length (stdout w1)) (stdout w1')
                     = map (Line \<circ> fst) (strategy_points s op kop))"
  proof (cases r0)
    case (Inl err)
    then show ?thesis using f1(3) f2(3) by simp
  next
    case (Inr dps)
    from run_points_Inr [OF r0 [unfolded Inr]] obtain requests where
      o: "map dp_operation dps = map (operation_of \<circ> snd) (strategy_points s op kop)" and
      p: "stdout v0 = map (Line \<circ> fst) (strategy_points s op kop)" and
      q: "sent v0 = requests" and
      q': "map Inr requests = map (circuit_request e \<circ> snd) (strategy_points s op kop)"
      by (auto simp: fresh_world_def)
    show ?thesis
      using f1 f2 o p q q' Inr by simp
  qed
  from s t c show ?thesis by (intro conjI)
qed


theorem sweeps_repeatable_witness:
  "deterministic (fake_env (answering 7))
   \<and> drop 0 (sent (snd (run_strategy (fake_env (answering 7)) Mul_op ''smul'' ''kSMul''
                          \<lparr>op_models = [], data_points = []\<rparr> fresh_world)))
       = drop 1 (sent (snd (run_strategy (fake_env (answering 7)) Mul_op ''smul'' ''kSMul''
                          \<lparr>op_models = [], data_points = [empty_data_point]\<rparr>
                          \<lparr>stdout = [Line ''# earlier''],
                           sent = [\<lparr>module_text = ''m'', top_module_name = ''t''\<rparr>]\<rparr>)))
   \<and> (\<exists>m1 m2.
         fst (run_strategy (fake_env (answering 7)) Mul_op ''smul'' ''kSMul''
                \<lparr>op_models = [], data_points = []\<rparr> fresh_world) = Inr m1
         \<and> fst (run_strategy (fake_env (answering 7)) Mul_op ''smul'' ''kSMul''
                  \<lparr>op_models = [], data_points = [empty_data_point]\<rparr>
                  \<lparr>stdout = [Line ''# earlier''],
                   sent = [\<lparr>module_text = ''m'', top_module_name = ''t''\<rparr>]\<rparr>) = Inr m2
         \<and> data_points m1 = drop 1 (data_points m2)
         \<and> length (data_points m1) = 64)"
proof -
  let ?e = "fake_env (answering 7)"
  let ?m1 = "\<lparr>op_models = [], data_points = []\<rparr>"
  let ?m2 = "\<lparr>op_models = [], data_points = [empty_data_point]\<rparr>"
  let ?w2 = "\<lparr>stdout = [Line ''# earlier''],
              sent = [\<lparr>module_text = ''m'', top_module_name = ''t''\<rparr>]\<rparr>"
  let ?run1 = "run_strategy ?e Mul_op ''smul'' ''kSMul'' ?m1 fresh_world"
  let ?run2 = "run_strategy ?e Mul_op ''smul'' ''kSMul'' ?m2 ?w2"
  have det: "deterministic ?e"
    by (simp add: deterministic_def Compile_fake answering_def)
  obtain dps v where "run_points ?e (strategy_points Mul_op ''smul'' ''kSMul'') fresh_world
                        = (Inr dps, v)"
    using run_points_fake_answering by blast
  then have "\<exists>m1. fst ?run1 = Inr m1"
    unfolding run_strategy_eq by (simp add: add_data_points_def)
  then obtain m1 where m1: "fst ?run1 = Inr m1"
    by blast
  have c1: "?run1 = (fst ?run1, snd ?run1)" and c2: "?run2 = (fst ?run2, snd ?run2)"
    by simp_all
  note t = sweeps_repeatable [OF det c1 c2]
  from t have a: "drop (length (sent fresh_world)) (sent (snd ?run1))
                    = drop (length (sent ?w2)) (sent (snd ?run2))"
    by (rule conjunct1)
  from t have "case fst ?run1 of
            Inl err \<Rightarrow> fst ?run2 = Inl err
          | Inr m1 \<Rightarrow>
              (\<exists>m2. fst ?run2 = Inr m2
                 \<and> drop (length (data_points ?m1)) (data_points m1)
                     = drop (length (data_points ?m2)) (data_points m2)
                 \<and> map dp_operation (drop (length (data_points ?m1)) (data_points m1))
                     = map (operation_of \<circ> snd) (strategy_points Mul_op ''smul'' ''kSMul'')
                 \<and> map Inr (drop (length (sent fresh_world)) (sent (snd ?run1)))
                     = map (circuit_request ?e \<circ> snd) (strategy_points Mul_op ''smul'' ''kSMul'')
                 \<and> drop (length (stdout fresh_world)) (stdout (snd ?run1))
                     = map (Line \<circ> fst) (strategy_points Mul_op ''smul'' ''kSMul''))"
    by (elim conjE)
  then obtain m2 where
    m2: "fst ?run2 = Inr m2" and
    d: "drop (length (data_points ?m1)) (data_points m1)
          = drop (length (data_points ?m2)) (data_points m2)" and
    o: "map dp_operation (drop (length (data_points ?m1)) (data_points m1))
          = map (operation_of \<circ> snd) (strategy_points Mul_op ''smul'' ''kSMul'')"
    unfolding m1 by auto
  from d have d': "data_points m1 = drop 1 (data_points m2)"
    by simp
  from o have "length (map dp_operation (data_points m1))
                 = length (map (operation_of \<circ> snd) (mul_op_points ''smul'' ''kSMul''))"
    by simp
  then have l: "length (data_points m1) = 64"
    by (simp add: mul_op_points_length)
  from a have a': "drop 0 (sent (snd ?run1)) = drop 1 (sent (snd ?run2))"
    by (simp add: fresh_world_def)
  from m1 m2 d' l have "\<exists>m1 m2. fst ?run1 = Inr m1 \<and> fst ?run2 = Inr m2
         \<and> data_points m1 = drop 1 (data_points m2) \<and> length (data_points m1) = 64"
    by blast
  with det a' show ?thesis by (intro conjI)
qed

end
